theory Spec2Isabelle
  imports Main "HOL-Library.Word"
begin

unbundle bit_operations_syntax

section \<open>The run command of the EVM tool (cmd/evm/runner.go)\<close>

text \<open>
  The model follows \<^verbatim>\<open>runCmd\<close> and \<^verbatim>\<open>timedExec\<close> of \<^verbatim>\<open>src/cmd/evm/runner.go\<close>.
  Text (flag values, file contents, hex digits) is a \<^typ>\<open>string\<close>: a Go string or
  \<^verbatim>\<open>[]byte\<close> of text, one \<^typ>\<open>char\<close> per byte. Decoded binary data is a list of
  8-bit words. Every way the command stops early is a value of \<open>abort\<close>.

  \<open>runCmd\<close> is one long function; the model cuts it into its steps, each named after
  what it computes and marked with its lines, and puts them together again in \<open>prepare\<close>,
  \<open>execute\<close>, \<open>report\<close> and \<open>runCmd\<close>. Left out: the set-up of the process-wide
  logger (lines 109-111), which writes nothing by itself, and the deferred stop of the CPU
  profile. What lies outside the file (files, standard input, the compiler, the genesis
  decoder, the engine, the profilers, the renderers of dump, trace and logs) is a field of
  the record \<open>env\<close>.
\<close>

subsection \<open>Data\<close>

type_synonym byte = "8 word"
type_synonym bytes = "byte list"
type_synonym uint64 = "64 word"

text \<open>\<^verbatim>\<open>common.Address\<close> is \<^verbatim>\<open>[20]byte\<close>: a list of bytes, of length 20 when built by
  \<open>BytesToAddress\<close>.\<close>

type_synonym address = bytes

text \<open>How a run stops before it reports: \<^verbatim>\<open>os.Exit(1)\<close> after the given text was written
  to standard output, \<^verbatim>\<open>utils.Fatalf\<close> with its message, a panic, or \<^verbatim>\<open>return err\<close>.\<close>

datatype abort = Exit string | Fatalf string | Panic string | Return string

subsection \<open>Text helpers of the Go library\<close>

definition newline :: string where
  "newline = [CHR 0x0A]"

text \<open>\<^verbatim>\<open>[]byte(s)\<close> of a text: its bytes.\<close>

definition bytesOf :: "string \<Rightarrow> bytes" where
  "bytesOf s = map (\<lambda>c. of_nat (of_char c)) s"

text \<open>\<^verbatim>\<open>%d\<close> of a non-negative integer.\<close>

definition digit :: "nat \<Rightarrow> char" where
  "digit n = ''0123456789'' ! n"

fun showNat :: "nat \<Rightarrow> string" where
  "showNat n = (if n < 10 then [digit n] else showNat (n div 10) @ [digit (n mod 10)])"

declare showNat.simps [simp del]

text \<open>\<^verbatim>\<open>%d\<close> of a signed integer.\<close>

definition showInt :: "int \<Rightarrow> string" where
  "showInt i = (if i < 0 then CHR ''-'' # showNat (nat (- i)) else showNat (nat i))"

text \<open>\<^verbatim>\<open>unicode/utf8\<close>: \<^verbatim>\<open>RuneError\<close>, \<^verbatim>\<open>DecodeRune\<close> (rune and width of the first
  rune of \<open>p\<close>; the table \<^verbatim>\<open>first\<close> and the accept ranges are written out as
  comparisons, the masks as \<open>mod\<close>), \<^verbatim>\<open>RuneStart\<close> and \<^verbatim>\<open>DecodeLastRune\<close>, whose
  backward loop is \<open>scanBack\<close>. Bytes and runes are natural numbers.\<close>

definition RuneError :: nat where
  "RuneError = 0xFFFD"

definition byteAt :: "string \<Rightarrow> nat \<Rightarrow> nat" where
  "byteAt p i = of_char (p ! i)"

definition DecodeRune :: "string \<Rightarrow> nat \<times> nat" where
  "DecodeRune p =
     (if length p < 1 then (RuneError, 0)
      else let p0 = byteAt p 0 in
        if p0 < 0x80 then (p0, 1)
        else if p0 < 0xC2 \<or> 0xF4 < p0 then (RuneError, 1)
        else
          let sz = (if p0 < 0xE0 then 2 else if p0 < 0xF0 then 3 else (4::nat));
              lo = (if p0 = 0xE0 then 0xA0 else if p0 = 0xF0 then 0x90 else (0x80::nat));
              hi = (if p0 = 0xED then 0x9F else if p0 = 0xF4 then 0x8F else (0xBF::nat))
          in
            if length p < sz then (RuneError, 1)
            else let b1 = byteAt p 1 in
              if b1 < lo \<or> hi < b1 then (RuneError, 1)
              else if sz \<le> 2 then ((p0 mod 32) * 64 + b1 mod 64, 2)
              else let b2 = byteAt p 2 in
                if b2 < 0x80 \<or> 0xBF < b2 then (RuneError, 1)
                else if sz \<le> 3 then ((p0 mod 16) * 4096 + (b1 mod 64) * 64 + b2 mod 64, 3)
                else let b3 = byteAt p 3 in
                  if b3 < 0x80 \<or> 0xBF < b3 then (RuneError, 1)
                  else ((p0 mod 8) * 262144 + (b1 mod 64) * 4096 + (b2 mod 64) * 64
                          + b3 mod 64, 4))"

definition RuneStart :: "nat \<Rightarrow> bool" where
  "RuneStart b = (b div 64 \<noteq> 2)"

function scanBack :: "string \<Rightarrow> int \<Rightarrow> int \<Rightarrow> int" where
  "scanBack p lim start =
     (if start \<ge> lim then
        (if RuneStart (byteAt p (nat start)) then start else scanBack p lim (start - 1))
      else start)"
  by pat_completeness auto
termination
  by (relation "measure (\<lambda>(p, lim, start). nat (start - lim + 1))") auto

declare scanBack.simps [simp del]

definition lastRuneStart :: "string \<Rightarrow> nat" where
  "lastRuneStart p =
     (let lim = max 0 (int (length p) - 4);
          start = scanBack p lim (int (length p) - 2)
      in nat (if start < 0 then 0 else start))"

definition DecodeLastRune :: "string \<Rightarrow> nat \<times> nat" where
  "DecodeLastRune p =
     (if length p = 0 then (RuneError, 0)
      else if byteAt p (length p - 1) < 0x80 then (byteAt p (length p - 1), 1)
      else if lastRuneStart p + snd (DecodeRune (drop (lastRuneStart p) p)) \<noteq> length p
        then (RuneError, 1)
      else DecodeRune (drop (lastRuneStart p) p))"

text \<open>\<^verbatim>\<open>unicode.IsSpace\<close>: the Latin-1 spaces, and the rest of the \<^verbatim>\<open>White_Space\<close>
  table.\<close>

definition IsSpace :: "nat \<Rightarrow> bool" where
  "IsSpace r =
     (if r \<le> 0xFF then
        r = 0x09 \<or> r = 0x0A \<or> r = 0x0B \<or> r = 0x0C \<or> r = 0x0D \<or> r = 0x20
        \<or> r = 0x85 \<or> r = 0xA0
      else
        r = 0x1680 \<or> (0x2000 \<le> r \<and> r \<le> 0x200A) \<or> r = 0x2028 \<or> r = 0x2029
        \<or> r = 0x202F \<or> r = 0x205F \<or> r = 0x3000)"

text \<open>\<^verbatim>\<open>bytes.indexFunc\<close> and \<^verbatim>\<open>bytes.lastIndexFunc\<close> with \<^verbatim>\<open>unicode.IsSpace\<close> and
  \<^verbatim>\<open>truth = false\<close>: the index of the first, and of the last, rune that is not white
  space, or -1. \<open>runeAt\<close> and \<open>runeBefore\<close> are the rune and width read at the head of
  each loop.\<close>

definition runeAt :: "string \<Rightarrow> nat \<Rightarrow> nat \<times> nat" where
  "runeAt s start =
     (if byteAt s start \<ge> 0x80 then DecodeRune (drop start s) else (byteAt s start, 1))"

definition runeBefore :: "string \<Rightarrow> nat \<Rightarrow> nat \<times> nat" where
  "runeBefore s i =
     (if byteAt s (i - 1) \<ge> 0x80 then DecodeLastRune (take i s) else (byteAt s (i - 1), 1))"

function indexFunc :: "string \<Rightarrow> nat \<Rightarrow> int" where
  "indexFunc s start =
     (if start < length s then
        (if \<not> IsSpace (fst (runeAt s start)) then int start
         else indexFunc s (start + snd (runeAt s start)))
      else - 1)"
  by pat_completeness auto
termination
proof (relation "measure (\<lambda>(s, start). length s - start)")
  show "wf (measure (\<lambda>(s, start). length s - start))" by simp
next
  fix s :: string and start :: nat
  assume a: "start < length s"
  have "q \<noteq> [] \<longrightarrow> 1 \<le> snd (DecodeRune q)" for q
    by (simp add: DecodeRune_def Let_def)
  with a have "1 \<le> snd (DecodeRune (drop start s))" by simp
  then have "1 \<le> snd (runeAt s start)" by (simp add: runeAt_def)
  with a show "((s, start + snd (runeAt s start)), (s, start))
          \<in> measure (\<lambda>(s, start). length s - start)"
    by simp
qed

declare indexFunc.simps [simp del]

function lastIndexFunc :: "string \<Rightarrow> nat \<Rightarrow> int" where
  "lastIndexFunc s i =
     (if i > 0 then
        (if \<not> IsSpace (fst (runeBefore s i)) then int (i - snd (runeBefore s i))
         else lastIndexFunc s (i - snd (runeBefore s i)))
      else - 1)"
  by pat_completeness auto
termination
proof (relation "measure (\<lambda>(s, i). i)")
  show "wf (measure (\<lambda>(s :: string, i). i))" by simp
next
  fix s :: string and i :: nat
  assume a: "0 < i" and sp: "\<not> \<not> IsSpace (fst (runeBefore s i))"
  have d: "IsSpace (fst (DecodeRune q)) \<longrightarrow> 1 \<le> snd (DecodeRune q)" for q
    by (simp add: DecodeRune_def Let_def) (simp add: IsSpace_def RuneError_def)
  have l: "IsSpace (fst (DecodeLastRune q)) \<longrightarrow> 1 \<le> snd (DecodeLastRune q)" for q
    using d [of "drop (lastRuneStart q) q"]
    by (simp add: DecodeLastRune_def IsSpace_def RuneError_def)
  have "1 \<le> snd (runeBefore s i)"
    using sp l [of "take i s"] by (simp add: runeBefore_def split: if_splits)
  with a show "((s, i - snd (runeBefore s i)), (s, i)) \<in> measure (\<lambda>(s, i). i)"
    by simp
qed

declare lastIndexFunc.simps [simp del]

text \<open>\<^verbatim>\<open>bytes.TrimLeftFunc\<close>, \<^verbatim>\<open>bytes.TrimRightFunc\<close> and \<^verbatim>\<open>bytes.TrimFunc\<close> with
  \<^verbatim>\<open>unicode.IsSpace\<close>.\<close>

definition TrimLeftFunc :: "string \<Rightarrow> string" where
  "TrimLeftFunc s = (let i = indexFunc s 0 in if i = - 1 then [] else drop (nat i) s)"

definition TrimRightFunc :: "string \<Rightarrow> string" where
  "TrimRightFunc s =
     (let i = lastIndexFunc s (length s);
          i' = (if i \<ge> 0 \<and> byteAt s (nat i) \<ge> 0x80
                then i + int (snd (DecodeRune (drop (nat i) s)))
                else i + 1)
      in take (nat i') s)"

definition TrimFunc :: "string \<Rightarrow> string" where
  "TrimFunc s = TrimRightFunc (TrimLeftFunc s)"

text \<open>\<^verbatim>\<open>bytes.TrimSpace\<close>: white space, as defined by Unicode, is removed at both ends.
  The first loop skips leading ASCII spaces, the second (\<open>trimStop\<close>) trailing ones; a
  byte from 0x80 on met by either hands what is left to \<open>TrimFunc\<close>.\<close>

definition asciiSpace :: "char \<Rightarrow> bool" where
  "asciiSpace c = (c \<in> set [CHR 0x09, CHR 0x0A, CHR 0x0B, CHR 0x0C, CHR 0x0D, CHR 0x20])"

fun trimStop :: "string \<Rightarrow> string" where
  "trimStop s =
     (if s = [] then []
      else if (of_char (last s) :: nat) \<ge> 0x80 then TrimFunc s
      else if asciiSpace (last s) then trimStop (butlast s)
      else s)"

declare trimStop.simps [simp del]

fun TrimSpace :: "string \<Rightarrow> string" where
  "TrimSpace [] = []"
| "TrimSpace (c # cs) =
     (if (of_char c :: nat) \<ge> 0x80 then TrimFunc (c # cs)
      else if asciiSpace c then TrimSpace cs
      else trimStop (c # cs))"

text \<open>\<^verbatim>\<open>encoding/hex\<close>: the value of one hex digit, and \<^verbatim>\<open>hex.DecodeString\<close> with its error
  dropped, which is what \<^verbatim>\<open>common.Hex2Bytes\<close> returns: the bytes decoded before the first
  invalid digit or before a trailing single digit.\<close>

definition fromHexChar :: "char \<Rightarrow> byte option" where
  "fromHexChar c =
     (let n = (of_char c :: nat) in
      if 48 \<le> n \<and> n \<le> 57 then Some (of_nat (n - 48))
      else if 97 \<le> n \<and> n \<le> 102 then Some (of_nat (n - 87))
      else if 65 \<le> n \<and> n \<le> 70 then Some (of_nat (n - 55))
      else None)"

fun hexDecode :: "string \<Rightarrow> bytes" where
  "hexDecode (p # q # rest) =
     (case fromHexChar p of
        None \<Rightarrow> []
      | Some a \<Rightarrow>
         (case fromHexChar q of
            None \<Rightarrow> []
          | Some b \<Rightarrow> (push_bit 4 a OR b) # hexDecode rest))"
| "hexDecode _ = []"

text \<open>Modelled from the spec: \<^verbatim>\<open>common.Hex2Bytes\<close> and \<^verbatim>\<open>common.FromHex\<close> (package
  \<^verbatim>\<open>common\<close>, not among the sources) are the "hex-decode" step of the code and input
  resolvers. \<open>FromHex\<close> accepts the \<^verbatim>\<open>0x\<close> spelling that the spec's example
  \<^verbatim>\<open>0x600052\<close> uses: a leading \<^verbatim>\<open>0x\<close> or \<^verbatim>\<open>0X\<close> is dropped, a text of odd length gets a
  leading \<^verbatim>\<open>0\<close>, and the digits are decoded.\<close>

definition Hex2Bytes :: "string \<Rightarrow> bytes" where
  "Hex2Bytes str = hexDecode str"

definition has0xPrefix :: "string \<Rightarrow> bool" where
  "has0xPrefix str =
     (length str \<ge> 2 \<and> str ! 0 = CHR ''0'' \<and> (str ! 1 = CHR ''x'' \<or> str ! 1 = CHR ''X''))"

definition FromHex :: "string \<Rightarrow> bytes" where
  "FromHex s =
     (let s1 = (if has0xPrefix s then drop 2 s else s);
          s2 = (if length s1 mod 2 = 1 then CHR ''0'' # s1 else s1)
      in Hex2Bytes s2)"

text \<open>\<^verbatim>\<open>%x\<close> of a byte slice: two lowercase hex digits per byte. With the \<^verbatim>\<open>#\<close> flag Go's
  \<^verbatim>\<open>fmt\<close> puts \<^verbatim>\<open>0x\<close> in front, but writes nothing at all for a slice of length 0.\<close>

definition hexdigit :: "nat \<Rightarrow> char" where
  "hexdigit n = ''0123456789abcdef'' ! n"

definition hexByte :: "byte \<Rightarrow> string" where
  "hexByte b = [hexdigit (unat b div 16), hexdigit (unat b mod 16)]"

definition hexEncode :: "bytes \<Rightarrow> string" where
  "hexEncode bs = concat (map hexByte bs)"

definition fmtSharpX :: "bytes \<Rightarrow> string" where
  "fmtSharpX b = (if length b = 0 then [] else ''0x'' @ hexEncode b)"

subsection \<open>The command line and the process environment\<close>

text \<open>The values of the flags, as \<^verbatim>\<open>ctx.String\<close>, \<^verbatim>\<open>ctx.Bool\<close>, \<^verbatim>\<open>ctx.Uint64\<close>,
  \<^verbatim>\<open>flags.GlobalBig\<close> and \<^verbatim>\<open>ctx.Args().First()\<close> return them.\<close>

record ctx =
  DisableMemoryFlag :: bool
  DisableStackFlag :: bool
  DisableStorageFlag :: bool
  DisableReturnDataFlag :: bool
  DebugFlag :: bool
  MachineFlag :: bool
  GenesisFlag :: string
  SenderFlag :: string
  ReceiverFlag :: string
  CodeFileFlag :: string
  CodeFlag :: string
  ArgsFirst :: string
  GasFlag :: uint64
  PriceFlag :: int
  ValueFlag :: int
  CPUProfileFlag :: string
  InputFileFlag :: string
  InputFlag :: string
  CreateFlag :: bool
  BenchFlag :: bool
  DumpFlag :: bool
  MemProfileFlag :: string
  StatDumpFlag :: bool

text \<open>Modelled from the spec: the account-state store (package \<^verbatim>\<open>core/state\<close>, not among
  the sources). Only what the run command needs of it: accounts with a balance and code;
  creating an account gives a fresh one that keeps the balance of an existing one; setting
  code installs it at the address, "overwriting any prior code there".\<close>

record account =
  acctBalance :: int
  acctCode :: bytes

type_synonym stateDB = "address \<rightharpoonup> account"

definition CreateAccount :: "address \<Rightarrow> stateDB \<Rightarrow> stateDB" where
  "CreateAccount addr db =
     db(addr \<mapsto> \<lparr>acctBalance = (case db addr of None \<Rightarrow> 0 | Some a \<Rightarrow> acctBalance a),
                  acctCode = []\<rparr>)"

definition SetCode :: "address \<Rightarrow> bytes \<Rightarrow> stateDB \<Rightarrow> stateDB" where
  "SetCode addr code db =
     db(addr \<mapsto> (case db addr of
                    None \<Rightarrow> \<lparr>acctBalance = 0, acctCode = code\<rparr>
                  | Some a \<Rightarrow> a\<lparr>acctCode := code\<rparr>))"

definition GetCode :: "stateDB \<Rightarrow> address \<Rightarrow> bytes" where
  "GetCode db addr = (case db addr of None \<Rightarrow> [] | Some a \<Rightarrow> acctCode a)"

text \<open>Modelled from the spec: \<^verbatim>\<open>common.BytesToAddress\<close> and \<^verbatim>\<open>common.HexToAddress\<close>
  (package \<^verbatim>\<open>common\<close>, not among the sources), the "address encoding" of the spec's example
  \<^verbatim>\<open>0x0000...73656e646572\<close>: the bytes sit at the right end of 20 bytes, zeros in front;
  of more than 20 bytes the last 20 are kept.\<close>

definition BytesToAddress :: "bytes \<Rightarrow> address" where
  "BytesToAddress b =
     (let b' = (if length b > 20 then drop (length b - 20) b else b)
      in replicate (20 - length b') 0 @ b')"

definition HexToAddress :: "string \<Rightarrow> address" where
  "HexToAddress s = BytesToAddress (FromHex s)"

text \<open>What the unit of work runs in and changes: the state store, and the counters and
  clock of the Go runtime that \<^verbatim>\<open>runtime.ReadMemStats\<close> and \<^verbatim>\<open>time.Now\<close> read
  (nanoseconds).\<close>

record proc =
  statedb :: stateDB
  Mallocs :: uint64
  TotalAlloc :: uint64
  now :: int

text \<open>\<^verbatim>\<open>logger.Config\<close>, the two loggers, and the genesis description with the fields the
  command reads.\<close>

record LogConfig =
  EnableMemory :: bool
  DisableStack :: bool
  DisableStorage :: bool
  EnableReturnData :: bool
  Debug :: bool

datatype StructLogger = NewStructLogger LogConfig

datatype EVMLogger = JSONLogger LogConfig | StructTracer StructLogger

datatype ChainConfig = AllEthashProtocolChanges | GenesisChainConfig string

record Genesis =
  Config :: "ChainConfig option"
  GasLimit :: uint64
  Difficulty :: int
  Timestamp :: uint64
  Coinbase :: address
  Number :: uint64

text \<open>\<^verbatim>\<open>new(core.Genesis)\<close>: every field zero.\<close>

definition newGenesis :: Genesis where
  "newGenesis = \<lparr>Genesis.Config = None, Genesis.GasLimit = 0, Genesis.Difficulty = 0,
     Genesis.Timestamp = 0, Genesis.Coinbase = replicate 20 0, Genesis.Number = 0\<rparr>"

text \<open>\<^verbatim>\<open>vm.Config\<close> and \<^verbatim>\<open>runtime.Config\<close>. The \<^verbatim>\<open>State\<close> pointer of the Go struct is
  the \<open>statedb\<close> of the \<open>proc\<close> that the engine is run on.\<close>

record vm_Config =
  Tracer :: "EVMLogger option"
  Debug :: bool

record runtime_Config =
  Origin :: address
  GasLimit :: uint64
  GasPrice :: int
  Value :: int
  Difficulty :: int
  Time :: uint64
  Coinbase :: address
  BlockNumber :: int
  ChainConfig :: ChainConfig
  EVMConfig :: vm_Config

text \<open>\<^verbatim>\<open>execStats\<close>; the result of a unit of work (output, gas left, error); and
  \<^verbatim>\<open>testing.Benchmark\<close>: the values of \<^verbatim>\<open>b.N\<close> it runs the benchmark function with, one
  after the other, and what the methods of its result return.\<close>

record execStats =
  time :: int
  allocs :: int
  bytesAllocated :: int

type_synonym execResult = "bytes \<times> uint64 \<times> string option"

type_synonym 'w execFunc = "'w \<Rightarrow> execResult \<times> 'w"

record testing =
  BN :: "nat list"
  NsPerOp :: int
  AllocsPerOp :: int
  AllocedBytesPerOp :: int

text \<open>The collaborators outside this file, as the command calls them. A read gives
  \<open>Inl\<close> the error's text or \<open>Inr\<close> the content; \<^verbatim>\<open>os.Create\<close> and the profilers give
  the error's text, if any. \<open>MustCommit\<close> stands for \<^verbatim>\<open>gen.MustCommit(db)\<close> followed by
  \<^verbatim>\<open>state.New\<close> at its root: the store of the genesis allocation, or the panic.\<close>

record env =
  ReadFile :: "string \<Rightarrow> string + string"
  ReadAllStdin :: "string + string"
  Compile :: "string \<Rightarrow> string \<Rightarrow> string + string"
  OpenFile :: "string \<Rightarrow> string + string"
  DecodeGenesis :: "string \<Rightarrow> string + Genesis"
  MustCommit :: "Genesis \<Rightarrow> string + stateDB"
  CreateFile :: "string \<Rightarrow> string option"
  StartCPUProfile :: "string option"
  WriteHeapProfile :: "string option"
  runtime_Create :: "bytes \<Rightarrow> runtime_Config \<Rightarrow> proc \<Rightarrow>
                       (bytes \<times> address \<times> uint64 \<times> string option) \<times> proc"
  runtime_Call :: "address \<Rightarrow> bytes \<Rightarrow> runtime_Config \<Rightarrow> proc \<Rightarrow> execResult \<times> proc"
  Benchmark :: testing
  Dump :: "stateDB \<Rightarrow> string \<times> stateDB"
  WriteTrace :: "StructLogger \<Rightarrow> proc \<Rightarrow> string"
  WriteLogs :: "stateDB \<Rightarrow> string"
  DurationString :: "int \<Rightarrow> string"

subsection \<open>readGenesis and timedExec\<close>

definition readGenesis :: "env \<Rightarrow> string \<Rightarrow> abort + Genesis" where
  "readGenesis e genesisPath =
     (if length genesisPath = 0 then Inl (Fatalf ''Must supply path to genesis JSON file'')
      else case OpenFile e genesisPath of
             Inl err \<Rightarrow> Inl (Fatalf (''Failed to read genesis file: '' @ err))
           | Inr file \<Rightarrow>
              (case DecodeGenesis e file of
                 Inl err \<Rightarrow> Inl (Fatalf (''invalid genesis file: '' @ err))
               | Inr genesis \<Rightarrow> Inr genesis))"

text \<open>The benchmark function of \<open>timedExec\<close>: \<^verbatim>\<open>for i := 0; i < b.N; i++\<close>, each round
  overwriting \<^verbatim>\<open>output, gasLeft, err\<close>; and \<^verbatim>\<open>testing.Benchmark\<close> running it for each value
  of \<^verbatim>\<open>b.N\<close> in turn, on the world the rounds before left behind.\<close>

fun benchLoop :: "nat \<Rightarrow> 'w execFunc \<Rightarrow> execResult \<times> 'w \<Rightarrow> execResult \<times> 'w" where
  "benchLoop 0 execFunc acc = acc"
| "benchLoop (Suc n) execFunc acc = benchLoop n execFunc (execFunc (snd acc))"

definition testing_Benchmark ::
  "nat list \<Rightarrow> 'w execFunc \<Rightarrow> execResult \<times> 'w \<Rightarrow> execResult \<times> 'w" where
  "testing_Benchmark ns execFunc acc = fold (\<lambda>n. benchLoop n execFunc) ns acc"

text \<open>\<open>timedExec\<close>. The named results start as \<^verbatim>\<open>nil, 0, nil\<close>. The deltas of the
  counters are differences of \<^verbatim>\<open>uint64\<close> converted to \<^verbatim>\<open>int64\<close>.\<close>

definition timedExec ::
  "testing \<Rightarrow> bool \<Rightarrow> ('a proc_scheme) execFunc \<Rightarrow> 'a proc_scheme
     \<Rightarrow> (bytes \<times> uint64 \<times> execStats \<times> string option) \<times> 'a proc_scheme" where
  "timedExec tb bench execFunc w =
     (if bench then
        (case testing_Benchmark (BN tb) execFunc (([], 0, None), w) of
           ((output, gasLeft, err), w') \<Rightarrow>
             ((output, gasLeft,
               \<lparr>time = NsPerOp tb, allocs = AllocsPerOp tb,
                bytesAllocated = AllocedBytesPerOp tb\<rparr>, err), w'))
      else
        (let memStatsBefore = (Mallocs w, TotalAlloc w);
             startTime = now w
         in case execFunc w of
              ((output, gasLeft, err), w') \<Rightarrow>
                (let memStatsAfter = (Mallocs w', TotalAlloc w')
                 in ((output, gasLeft,
                      \<lparr>time = now w' - startTime,
                       allocs = sint (fst memStatsAfter - fst memStatsBefore),
                       bytesAllocated = sint (snd memStatsAfter - snd memStatsBefore)\<rparr>,
                      err), w'))))"

subsection \<open>runCmd, step by step\<close>

text \<open>Lines 112-118 and 129-136: the logger configuration, and the choice of the tracer.
  The pair is (\<^verbatim>\<open>tracer\<close>, \<^verbatim>\<open>debugLogger\<close>); \<open>None\<close> is \<^verbatim>\<open>nil\<close>.\<close>

definition logconfig :: "ctx \<Rightarrow> LogConfig" where
  "logconfig c = \<lparr>EnableMemory = \<not> DisableMemoryFlag c, DisableStack = DisableStackFlag c,
     DisableStorage = DisableStorageFlag c, EnableReturnData = \<not> DisableReturnDataFlag c,
     LogConfig.Debug = DebugFlag c\<rparr>"

definition selectTracer :: "ctx \<Rightarrow> EVMLogger option \<times> StructLogger option" where
  "selectTracer c =
     (if MachineFlag c then (Some (JSONLogger (logconfig c)), None)
      else if DebugFlag c then
        (let debugLogger = NewStructLogger (logconfig c)
         in (Some (StructTracer debugLogger), Some debugLogger))
      else (None, Some (NewStructLogger (logconfig c))))"

text \<open>Lines 137-147: the state store, the chain configuration and the genesis.\<close>

definition initState :: "env \<Rightarrow> ctx \<Rightarrow> abort + (stateDB \<times> ChainConfig option \<times> Genesis)" where
  "initState e c =
     (if GenesisFlag c \<noteq> [] then
        (case readGenesis e (GenesisFlag c) of
           Inl a \<Rightarrow> Inl a
         | Inr gen \<Rightarrow>
            (case MustCommit e gen of
               Inl p \<Rightarrow> Inl (Panic p)
             | Inr db \<Rightarrow> Inr (db, Genesis.Config gen, gen)))
      else Inr (Map.empty, None, newGenesis))"

text \<open>Lines 125-126 and 148-155: sender and receiver.\<close>

definition senderOf :: "ctx \<Rightarrow> address" where
  "senderOf c =
     (if SenderFlag c \<noteq> [] then HexToAddress (SenderFlag c)
      else BytesToAddress (bytesOf ''sender''))"

definition receiverOf :: "ctx \<Rightarrow> address" where
  "receiverOf c =
     (if ReceiverFlag c \<noteq> [] then HexToAddress (ReceiverFlag c)
      else BytesToAddress (bytesOf ''receiver''))"

text \<open>Lines 157-200: the code.\<close>

definition readHexcode :: "env \<Rightarrow> ctx \<Rightarrow> abort + string" where
  "readHexcode e c =
     (let codeFileFlag = CodeFileFlag c; codeFlag = CodeFlag c in
      if codeFileFlag \<noteq> [] then
        (if codeFileFlag = ''-'' then
           (case ReadAllStdin e of
              Inl err \<Rightarrow> Inl (Exit (''Could not load code from stdin: '' @ err @ newline))
            | Inr hexcode \<Rightarrow> Inr hexcode)
         else
           (case ReadFile e codeFileFlag of
              Inl err \<Rightarrow> Inl (Exit (''Could not load code from file: '' @ err @ newline))
            | Inr hexcode \<Rightarrow> Inr hexcode))
      else Inr codeFlag)"

text \<open>Lines 183-188: trim, check the length, decode.\<close>

definition checkHexcode :: "string \<Rightarrow> abort + bytes" where
  "checkHexcode hexcode0 =
     (let hexcode = TrimSpace hexcode0 in
      if length hexcode mod 2 \<noteq> 0 then
        Inl (Exit (''Invalid input length for hex data ('' @ showNat (length hexcode)
                     @ '')'' @ newline))
      else Inr (FromHex hexcode))"

definition resolveCode :: "env \<Rightarrow> ctx \<Rightarrow> abort + bytes" where
  "resolveCode e c =
     (let codeFileFlag = CodeFileFlag c; codeFlag = CodeFlag c in
      if codeFileFlag \<noteq> [] \<or> codeFlag \<noteq> [] then
        (case readHexcode e c of
           Inl a \<Rightarrow> Inl a
         | Inr hexcode \<Rightarrow> checkHexcode hexcode)
      else if length (ArgsFirst c) > 0 then
        (case ReadFile e (ArgsFirst c) of
           Inl err \<Rightarrow> Inl (Return err)
         | Inr src \<Rightarrow>
            (case Compile e (ArgsFirst c) src of
               Inl err \<Rightarrow> Inl (Return err)
             | Inr bin \<Rightarrow> Inr (Hex2Bytes bin)))
      else Inr [])"

text \<open>Lines 201-219 and 234-238: the gas and the configuration of the engine.\<close>

definition initialGas :: "ctx \<Rightarrow> Genesis \<Rightarrow> uint64" where
  "initialGas c genesisConfig =
     (if Genesis.GasLimit genesisConfig \<noteq> 0 then Genesis.GasLimit genesisConfig
      else GasFlag c)"

definition runtimeConfig ::
  "ctx \<Rightarrow> ChainConfig option \<Rightarrow> Genesis \<Rightarrow> EVMLogger option \<Rightarrow> runtime_Config" where
  "runtimeConfig c chainConfig genesisConfig tracer =
     \<lparr>Origin = senderOf c,
      GasLimit = initialGas c genesisConfig,
      GasPrice = PriceFlag c,
      Value = ValueFlag c,
      Difficulty = Genesis.Difficulty genesisConfig,
      Time = Genesis.Timestamp genesisConfig,
      Coinbase = Genesis.Coinbase genesisConfig,
      BlockNumber = uint (Genesis.Number genesisConfig),
      ChainConfig = (case chainConfig of Some cc \<Rightarrow> cc | None \<Rightarrow> AllEthashProtocolChanges),
      EVMConfig = \<lparr>Tracer = tracer, Debug = (DebugFlag c \<or> MachineFlag c)\<rparr>\<rparr>"

text \<open>Lines 221-232: the CPU profile. \<^verbatim>\<open>fmt.Println\<close> puts a space between its
  operands.\<close>

definition startCPUProfile :: "env \<Rightarrow> ctx \<Rightarrow> abort + unit" where
  "startCPUProfile e c =
     (if CPUProfileFlag c \<noteq> [] then
        (case CreateFile e (CPUProfileFlag c) of
           Some err \<Rightarrow> Inl (Exit (''could not create CPU profile:  '' @ err @ newline))
         | None \<Rightarrow>
            (case StartCPUProfile e of
               Some err \<Rightarrow> Inl (Exit (''could not start CPU profile:  '' @ err @ newline))
             | None \<Rightarrow> Inr ()))
      else Inr ())"

text \<open>Lines 240-255: the input.\<close>

definition readHexInput :: "env \<Rightarrow> ctx \<Rightarrow> abort + string" where
  "readHexInput e c =
     (if InputFileFlag c \<noteq> [] then
        (case ReadFile e (InputFileFlag c) of
           Inl err \<Rightarrow> Inl (Exit (''could not load input from file: '' @ err @ newline))
         | Inr hexInput \<Rightarrow> Inr hexInput)
      else Inr (InputFlag c))"

definition checkHexInput :: "string \<Rightarrow> abort + bytes" where
  "checkHexInput hexInput0 =
     (let hexInput = TrimSpace hexInput0 in
      if length hexInput mod 2 \<noteq> 0 then Inl (Exit (''input length must be even'' @ newline))
      else Inr (FromHex hexInput))"

definition resolveInput :: "env \<Rightarrow> ctx \<Rightarrow> abort + bytes" where
  "resolveInput e c =
     (case readHexInput e c of
        Inl a \<Rightarrow> Inl a
      | Inr hexInput \<Rightarrow> checkHexInput hexInput)"

text \<open>Lines 257-271: the unit of work, and the store as it is when the unit of work is
  first invoked.\<close>

definition dispatch ::
  "env \<Rightarrow> ctx \<Rightarrow> runtime_Config \<Rightarrow> address \<Rightarrow> bytes \<Rightarrow> bytes \<Rightarrow> proc \<Rightarrow> proc \<times> proc execFunc" where
  "dispatch e c cfg receiver code input w =
     (if CreateFlag c then
        (let input' = code @ input
         in (w, \<lambda>w. case runtime_Create e input' cfg w of
                       ((output, _, gasLeft, err), w') \<Rightarrow> ((output, gasLeft, err), w')))
      else
        ((if length code > 0 then w\<lparr>statedb := SetCode receiver code (statedb w)\<rparr> else w),
         \<lambda>w. runtime_Call e receiver input cfg w))"

text \<open>Lines 276-316: what is written after the execution. The result line of lines
  311-316 is \<open>resultText\<close>.\<close>

definition dumpText :: "env \<Rightarrow> ctx \<Rightarrow> proc \<Rightarrow> string \<times> proc" where
  "dumpText e c w =
     (if DumpFlag c then
        (case Dump e (statedb w) of (txt, db) \<Rightarrow> (txt @ newline, w\<lparr>statedb := db\<rparr>))
      else ([], w))"

definition writeMemProfile :: "env \<Rightarrow> ctx \<Rightarrow> string option" where
  "writeMemProfile e c =
     (if MemProfileFlag c \<noteq> [] then
        (case CreateFile e (MemProfileFlag c) of
           Some err \<Rightarrow> Some (''could not create memory profile:  '' @ err @ newline)
         | None \<Rightarrow>
            (case WriteHeapProfile e of
               Some err \<Rightarrow> Some (''could not write memory profile:  '' @ err @ newline)
             | None \<Rightarrow> None))
      else None)"

definition debugText :: "env \<Rightarrow> ctx \<Rightarrow> StructLogger option \<Rightarrow> proc \<Rightarrow> string" where
  "debugText e c debugLogger w =
     (if DebugFlag c then
        (case debugLogger of
           Some d \<Rightarrow> ''#### TRACE ####'' @ newline @ WriteTrace e d w
         | None \<Rightarrow> [])
        @ ''#### LOGS ####'' @ newline @ WriteLogs e (statedb w)
      else [])"

definition statsText :: "env \<Rightarrow> ctx \<Rightarrow> uint64 \<Rightarrow> uint64 \<Rightarrow> execStats \<Rightarrow> string" where
  "statsText e c gas leftOverGas stats =
     (if BenchFlag c \<or> StatDumpFlag c then
        ''EVM gas used:    '' @ showNat (unat (gas - leftOverGas)) @ newline
        @ ''execution time:  '' @ DurationString e (time stats) @ newline
        @ ''allocations:     '' @ showInt (allocs stats) @ newline
        @ ''allocated bytes: '' @ showInt (bytesAllocated stats) @ newline
      else [])"

definition resultText :: "EVMLogger option \<Rightarrow> bytes \<Rightarrow> string option \<Rightarrow> string" where
  "resultText tracer output err =
     (if tracer = None then
        fmtSharpX output @ newline
        @ (case err of None \<Rightarrow> [] | Some msg \<Rightarrow> '' error: '' @ msg @ newline)
      else [])"

text \<open>What a run that reaches \<^verbatim>\<open>return nil\<close> leaves: the text on standard output and on
  standard error (what the engine's own tracer writes apart), and the world.\<close>

record final =
  Stdout :: string
  Stderr :: string
  World :: proc

text \<open>The part of \<open>runCmd\<close> before the unit of work is built (lines 108-255), in the
  order of the source: the first step that fails ends the run.\<close>

record prepared =
  pTracer :: "EVMLogger option"
  pDebugLogger :: "StructLogger option"
  pStatedb :: stateDB
  pReceiver :: address
  pCode :: bytes
  pConfig :: runtime_Config
  pInput :: bytes

definition prepare :: "env \<Rightarrow> ctx \<Rightarrow> abort + prepared" where
  "prepare e c =
     (case selectTracer c of
        (tracer, debugLogger) \<Rightarrow>
     (case initState e c of
        Inl a \<Rightarrow> Inl a
      | Inr (statedb0, chainConfig, genesisConfig) \<Rightarrow>
     (let statedb1 = CreateAccount (senderOf c) statedb0 in
      case resolveCode e c of
        Inl a \<Rightarrow> Inl a
      | Inr code \<Rightarrow>
     (case startCPUProfile e c of
        Inl a \<Rightarrow> Inl a
      | Inr _ \<Rightarrow>
     (case resolveInput e c of
        Inl a \<Rightarrow> Inl a
      | Inr input \<Rightarrow>
          Inr \<lparr>pTracer = tracer, pDebugLogger = debugLogger, pStatedb = statedb1,
               pReceiver = receiverOf c, pCode = code,
               pConfig = runtimeConfig c chainConfig genesisConfig tracer,
               pInput = input\<rparr>)))))"

text \<open>Lines 257-274: the unit of work is built and handed to \<open>timedExec\<close>, in a process
  whose counters and clock are those of \<open>w0\<close>.\<close>

definition execute ::
  "env \<Rightarrow> ctx \<Rightarrow> prepared \<Rightarrow> proc \<Rightarrow> (bytes \<times> uint64 \<times> execStats \<times> string option) \<times> proc" where
  "execute e c p w0 =
     (case dispatch e c (pConfig p) (pReceiver p) (pCode p) (pInput p)
             (w0\<lparr>statedb := pStatedb p\<rparr>) of
        (w1, execFunc) \<Rightarrow> timedExec (Benchmark e) (BenchFlag c) execFunc w1)"

text \<open>Lines 276-318.\<close>

definition report ::
  "env \<Rightarrow> ctx \<Rightarrow> prepared \<Rightarrow> (bytes \<times> uint64 \<times> execStats \<times> string option) \<times> proc
     \<Rightarrow> abort + final" where
  "report e c p r =
     (case r of
        ((output, leftOverGas, stats, err), w2) \<Rightarrow>
     (case dumpText e c w2 of
        (dump, w3) \<Rightarrow>
     (case writeMemProfile e c of
        Some msg \<Rightarrow> Inl (Exit (dump @ msg))
      | None \<Rightarrow>
          Inr \<lparr>Stdout = dump @ resultText (pTracer p) output err,
               Stderr = debugText e c (pDebugLogger p) w3
                        @ statsText e c (runtime_Config.GasLimit (pConfig p)) leftOverGas stats,
               World = w3\<rparr>)))"

definition runCmd :: "env \<Rightarrow> ctx \<Rightarrow> proc \<Rightarrow> abort + final" where
  "runCmd e c w0 =
     (case prepare e c of
        Inl a \<Rightarrow> Inl a
      | Inr p \<Rightarrow> report e c p (execute e c p w0))"

subsection \<open>A concrete environment\<close>

text \<open>An environment to run the model in: one code file, one input file, one assembly
  source, a genesis file with a gas limit, standard input, and an engine that answers with
  what it was given: \<^verbatim>\<open>Create\<close> returns its input, \<^verbatim>\<open>Call\<close> returns the code found at the
  receiver followed by its input. Each invocation bumps the counters and the clock.\<close>

definition tick :: "proc \<Rightarrow> proc" where
  "tick w = w\<lparr>Mallocs := Mallocs w + 2, TotalAlloc := TotalAlloc w + 64, now := now w + 5\<rparr>"

definition testGenesis :: Genesis where
  "testGenesis = newGenesis\<lparr>Genesis.GasLimit := 5000\<rparr>"

definition testEnv :: env where
  "testEnv =
     \<lparr>ReadFile = (\<lambda>fn. if fn = ''code.hex'' then Inr ''6001''
                        else if fn = ''input.hex'' then Inr ''0xff''
                        else if fn = ''prog.easm'' then Inr ''push 3''
                        else Inl ''no such file''),
      ReadAllStdin = Inr ('' 0x6002'' @ newline),
      Compile = (\<lambda>fn src. Inr ''6003''),
      OpenFile = (\<lambda>fn. if fn = ''genesis.json'' then Inr ''{}'' else Inl ''no such file''),
      DecodeGenesis = (\<lambda>txt. Inr testGenesis),
      MustCommit = (\<lambda>gen. Inr Map.empty),
      CreateFile = (\<lambda>fn. None),
      StartCPUProfile = None,
      WriteHeapProfile = None,
      runtime_Create = (\<lambda>input cfg w. ((input, [], runtime_Config.GasLimit cfg, None), tick w)),
      runtime_Call = (\<lambda>receiver input cfg w.
         ((GetCode (statedb w) receiver @ input, runtime_Config.GasLimit cfg, None), tick w)),
      Benchmark = \<lparr>BN = [1, 3], NsPerOp = 5, AllocsPerOp = 2, AllocedBytesPerOp = 64\<rparr>,
      Dump = (\<lambda>db. (''{}'', db)),
      WriteTrace = (\<lambda>d w. []),
      WriteLogs = (\<lambda>db. []),
      DurationString = (\<lambda>d. showInt d @ ''ns'')\<rparr>"

text \<open>The command line with no flag set (the gas flag at its default).\<close>

definition noFlags :: ctx where
  "noFlags =
     \<lparr>DisableMemoryFlag = False, DisableStackFlag = False, DisableStorageFlag = False,
      DisableReturnDataFlag = False, DebugFlag = False, MachineFlag = False,
      GenesisFlag = [], SenderFlag = [], ReceiverFlag = [], CodeFileFlag = [], CodeFlag = [],
      ArgsFirst = [], GasFlag = 10000000000, PriceFlag = 0, ValueFlag = 0,
      CPUProfileFlag = [], InputFileFlag = [], InputFlag = [], CreateFlag = False,
      BenchFlag = False, DumpFlag = False, MemProfileFlag = [], StatDumpFlag = False\<rparr>"

definition proc0 :: proc where
  "proc0 = \<lparr>statedb = Map.empty, Mallocs = 100, TotalAlloc = 4096, now = 1000\<rparr>"

text \<open>What \<open>prepare\<close> gives in that environment with no flag set, and a command line
  that gives both a code file and inline code.\<close>

definition basePrepared :: prepared where
  "basePrepared =
     \<lparr>pTracer = None,
      pDebugLogger = Some (NewStructLogger \<lparr>EnableMemory = True, DisableStack = False,
         DisableStorage = False, EnableReturnData = True, LogConfig.Debug = False\<rparr>),
      pStatedb = [BytesToAddress (bytesOf ''sender'') \<mapsto> \<lparr>acctBalance = 0, acctCode = []\<rparr>],
      pReceiver = BytesToAddress (bytesOf ''receiver''),
      pCode = [],
      pConfig = \<lparr>Origin = BytesToAddress (bytesOf ''sender''), GasLimit = 10000000000,
         GasPrice = 0, Value = 0, Difficulty = 0, Time = 0, Coinbase = replicate 20 0,
         BlockNumber = 0, ChainConfig = AllEthashProtocolChanges,
         EVMConfig = \<lparr>Tracer = None, Debug = False\<rparr>\<rparr>,
      pInput = []\<rparr>"

definition fileAndInline :: ctx where
  "fileAndInline = noFlags\<lparr>CodeFileFlag := ''code.hex'', CodeFlag := ''6000''\<rparr>"

section \<open>Properties\<close>

subsection \<open>Unfolding rules and the steps of \<open>prepare\<close>\<close>

text \<open>The loops of the trimming functions, one round at a time.\<close>

lemma scanBack_rules:
  "start \<ge> lim \<Longrightarrow> RuneStart (byteAt p (nat start)) \<Longrightarrow> scanBack p lim start = start"
  "start \<ge> lim \<Longrightarrow> \<not> RuneStart (byteAt p (nat start)) \<Longrightarrow>
     scanBack p lim start = scanBack p lim (start - 1)"
  "\<not> start \<ge> lim \<Longrightarrow> scanBack p lim start = start"
  by (subst scanBack.simps, simp)+

lemma indexFunc_rules:
  "start < length s \<Longrightarrow> \<not> IsSpace (fst (runeAt s start)) \<Longrightarrow> indexFunc s start = int start"
  "start < length s \<Longrightarrow> IsSpace (fst (runeAt s start)) \<Longrightarrow>
     indexFunc s start = indexFunc s (start + snd (runeAt s start))"
  "\<not> start < length s \<Longrightarrow> indexFunc s start = - 1"
  by (subst indexFunc.simps, simp)+

lemma lastIndexFunc_rules:
  "i > 0 \<Longrightarrow> \<not> IsSpace (fst (runeBefore s i)) \<Longrightarrow>
     lastIndexFunc s i = int (i - snd (runeBefore s i))"
  "i > 0 \<Longrightarrow> IsSpace (fst (runeBefore s i)) \<Longrightarrow>
     lastIndexFunc s i = lastIndexFunc s (i - snd (runeBefore s i))"
  "\<not> i > 0 \<Longrightarrow> lastIndexFunc s i = - 1"
  by (subst lastIndexFunc.simps, simp)+

lemma trimStop_rules:
  "trimStop [] = []"
  "s \<noteq> [] \<Longrightarrow> (of_char (last s) :: nat) \<ge> 0x80 \<Longrightarrow> trimStop s = TrimFunc s"
  "s \<noteq> [] \<Longrightarrow> \<not> (of_char (last s) :: nat) \<ge> 0x80 \<Longrightarrow> asciiSpace (last s) \<Longrightarrow>
     trimStop s = trimStop (butlast s)"
  "s \<noteq> [] \<Longrightarrow> \<not> (of_char (last s) :: nat) \<ge> 0x80 \<Longrightarrow> \<not> asciiSpace (last s) \<Longrightarrow>
     trimStop s = s"
  by (subst trimStop.simps, simp)+

lemmas trim_defs = trimStop_rules asciiSpace_def TrimFunc_def TrimLeftFunc_def
  TrimRightFunc_def indexFunc_rules lastIndexFunc_rules runeAt_def runeBefore_def
  DecodeRune_def DecodeLastRune_def lastRuneStart_def scanBack_rules IsSpace_def RuneStart_def
  byteAt_def RuneError_def Let_def

text \<open>White space outside ASCII is trimmed too: the ideographic space U+3000 (bytes E3 80
  80) after the digits, and the no-break space U+00A0 (bytes C2 A0) before them.\<close>

lemma TrimSpace_ideographic:
  "TrimSpace ([CHR ''6'', CHR ''0'', CHR ''0'', CHR 0xE3, CHR 0x80, CHR 0x80]) = ''600''"
proof -
  let ?s = "[CHR ''6'', CHR ''0'', CHR ''0'', CHR 0xE3, CHR 0x80, CHR 0x80]"
  have l: "TrimLeftFunc ?s = ?s"
    by (simp add: TrimLeftFunc_def indexFunc_rules runeAt_def byteAt_def IsSpace_def)
  have n: "length ?s = 6" by simp
  have i: "lastIndexFunc ?s 6 = 2" by (simp add: trim_defs)
  have r: "TrimRightFunc ?s = ''600''"
    unfolding TrimRightFunc_def n i by (simp add: byteAt_def)
  have "TrimSpace ?s = TrimFunc ?s"
    by (simp add: trimStop_rules asciiSpace_def)
  then show ?thesis by (simp only: TrimFunc_def l r)
qed

lemma TrimSpace_no_break:
  "TrimSpace ([CHR 0xC2, CHR 0xA0, CHR ''0'', CHR ''X'', CHR ''6'', CHR ''0'', CHR ''a'', CHR ''f'',
      CHR 0xE3, CHR 0x80, CHR 0x80, CHR 0x0A])
     = ''0X60af''"
proof -
  let ?s = "[CHR 0xC2, CHR 0xA0, CHR ''0'', CHR ''X'', CHR ''6'', CHR ''0'', CHR ''a'', CHR ''f'',
      CHR 0xE3, CHR 0x80, CHR 0x80, CHR 0x0A]"
  let ?t = "[CHR ''0'', CHR ''X'', CHR ''6'', CHR ''0'', CHR ''a'', CHR ''f'',
      CHR 0xE3, CHR 0x80, CHR 0x80, CHR 0x0A]"
  have "indexFunc ?s 0 = 2" by (simp add: trim_defs)
  then have l: "TrimLeftFunc ?s = ?t" by (simp add: TrimLeftFunc_def)
  have n: "length ?t = 10" by simp
  have i: "lastIndexFunc ?t 10 = 5" by (simp add: trim_defs)
  have r: "TrimRightFunc ?t = ''0X60af''"
    unfolding TrimRightFunc_def n i by (simp add: byteAt_def)
  have "TrimSpace ?s = TrimFunc ?s" by simp
  then show ?thesis by (simp only: TrimFunc_def l r)
qed

lemmas text_defs = trimStop_rules asciiSpace_def newline_def showNat.simps digit_def
  FromHex_def has0xPrefix_def Hex2Bytes_def fromHexChar_def
  fmtSharpX_def hexEncode_def hexByte_def hexdigit_def bytesOf_def

lemmas prepare_defs = prepare_def selectTracer_def logconfig_def initState_def readGenesis_def
  senderOf_def receiverOf_def BytesToAddress_def HexToAddress_def CreateAccount_def
  resolveCode_def readHexcode_def checkHexcode_def startCPUProfile_def
  resolveInput_def readHexInput_def checkHexInput_def runtimeConfig_def initialGas_def
  newGenesis_def

lemmas run_defs = runCmd_def execute_def dispatch_def timedExec_def testing_Benchmark_def
  report_def dumpText_def writeMemProfile_def debugText_def statsText_def resultText_def
  SetCode_def GetCode_def showInt_def

lemmas test_defs = testEnv_def noFlags_def proc0_def tick_def testGenesis_def

text \<open>A run that gets through \<open>prepare\<close> has resolved its code and input, chosen its
  tracer and built its store and configuration as the steps say.\<close>

lemma prepare_fields:
  assumes "prepare e c = Inr p"
  shows "resolveCode e c = Inr (pCode p)" and "resolveInput e c = Inr (pInput p)"
    and "pTracer p = fst (selectTracer c)" and "pDebugLogger p = snd (selectTracer c)"
    and "pReceiver p = receiverOf c"
    and "\<exists>db cc g. initState e c = Inr (db, cc, g)
            \<and> pStatedb p = CreateAccount (senderOf c) db
            \<and> pConfig p = runtimeConfig c cc g (fst (selectTracer c))"
  using assms
  by (auto simp: prepare_def Let_def split: prod.splits sum.splits)

lemma prepare_noFlags: "prepare testEnv noFlags = Inr basePrepared"
  by (simp add: prepare_defs text_defs test_defs basePrepared_def)

lemma prepare_code_input:
  "prepare testEnv (noFlags\<lparr>CodeFlag := ''6001'', InputFlag := ''0xff'', CreateFlag := b\<rparr>)
     = Inr (basePrepared\<lparr>pCode := [0x60, 0x01], pInput := [0xff]\<rparr>)"
  by (simp add: prepare_defs text_defs test_defs basePrepared_def)

lemma initState_noFlags: "initState testEnv noFlags = Inr (Map.empty, None, newGenesis)"
  by (simp add: initState_def noFlags_def)

text \<open>The steps before the execution do not refer to the engine, and a run that fails in
  one of them ends there.\<close>

lemma steps_engine_free:
  "initState (e\<lparr>runtime_Create := f, runtime_Call := g\<rparr>) c = initState e c"
  "resolveCode (e\<lparr>runtime_Create := f, runtime_Call := g\<rparr>) c = resolveCode e c"
  "startCPUProfile (e\<lparr>runtime_Create := f, runtime_Call := g\<rparr>) c = startCPUProfile e c"
  "resolveInput (e\<lparr>runtime_Create := f, runtime_Call := g\<rparr>) c = resolveInput e c"
  by (simp_all add: initState_def readGenesis_def resolveCode_def readHexcode_def
      startCPUProfile_def resolveInput_def readHexInput_def
      cong: sum.case_cong option.case_cong if_cong)

lemma prepare_engine_free:
  "prepare (e\<lparr>runtime_Create := f, runtime_Call := g\<rparr>) c = prepare e c"
  by (simp add: prepare_def steps_engine_free Let_def cong: sum.case_cong prod.case_cong)

lemma runCmd_abort:
  "prepare e c = Inl a \<Longrightarrow> runCmd (e\<lparr>runtime_Create := f, runtime_Call := g\<rparr>) c ws = Inl a"
  by (simp add: runCmd_def prepare_engine_free)

lemma resolveCode_odd:
  assumes "CodeFileFlag c \<noteq> [] \<or> CodeFlag c \<noteq> []" and "readHexcode e c = Inr h"
    and "odd (length (TrimSpace h))"
  shows "resolveCode e c = Inl (Exit (''Invalid input length for hex data (''
            @ showNat (length (TrimSpace h)) @ '')'' @ newline))"
  using assms by (auto simp: resolveCode_def checkHexcode_def Let_def odd_iff_mod_2_eq_one)

lemma resolveInput_odd:
  assumes "readHexInput e c = Inr h" and "odd (length (TrimSpace h))"
  shows "resolveInput e c = Inl (Exit (''input length must be even'' @ newline))"
  using assms by (auto simp: resolveInput_def checkHexInput_def Let_def odd_iff_mod_2_eq_one)

lemma prepare_code_abort:
  "resolveCode e c = Inl a \<Longrightarrow>
   prepare e c = (case initState e c of Inl b \<Rightarrow> Inl b | Inr s \<Rightarrow> Inl a)"
  by (auto simp: prepare_def Let_def split: prod.splits sum.splits)

lemma prepare_input_abort:
  "resolveInput e c = Inl a \<Longrightarrow>
   prepare e c =
     (case initState e c of
        Inl b \<Rightarrow> Inl b
      | Inr s \<Rightarrow>
         (case resolveCode e c of
            Inl b \<Rightarrow> Inl b
          | Inr code \<Rightarrow> (case startCPUProfile e c of Inl b \<Rightarrow> Inl b | Inr u \<Rightarrow> Inl a)))"
  by (auto simp: prepare_def Let_def split: prod.splits sum.splits)

text \<open>The benchmark loop: running it for each \<^verbatim>\<open>b.N\<close> in turn is running it for their sum,
  and a loop of at least one round ends with the result of its last round.\<close>

lemma benchLoop_add: "benchLoop (m + n) f acc = benchLoop n f (benchLoop m f acc)"
  by (induction m arbitrary: acc) simp_all

lemma testing_Benchmark_flat: "testing_Benchmark ns f acc = benchLoop (sum_list ns) f acc"
  unfolding testing_Benchmark_def
  by (induction ns arbitrary: acc) (simp_all add: benchLoop_add)

lemma runs_swap:
  "((\<lambda>w. snd (f w)) ^^ k) (snd (f x)) = snd (f (((\<lambda>w. snd (f w)) ^^ k) x))"
  by (induction k) simp_all

lemma benchLoop_last:
  "0 < n \<Longrightarrow> benchLoop n f acc = f (((\<lambda>w. snd (f w)) ^^ (n - 1)) (snd acc))"
proof (induction n arbitrary: acc)
  case 0
  then show ?case by simp
next
  case (Suc n)
  show ?case
  proof (cases n)
    case 0
    then show ?thesis by simp
  next
    case (Suc k)
    then have "benchLoop n f (f (snd acc)) = f (((\<lambda>w. snd (f w)) ^^ (n - 1)) (snd (f (snd acc))))"
      using Suc.IH by simp
    then show ?thesis using Suc by (simp add: runs_swap)
  qed
qed

text \<open>Hex digits: decoding, the \<^verbatim>\<open>0x\<close> prefix, and the lowercase encoding.\<close>

lemma hexdigits_no_prefix:
  assumes "list_all (\<lambda>c. fromHexChar c \<noteq> None) ds"
  shows "\<not> has0xPrefix ds"
proof
  assume h: "has0xPrefix ds"
  then have "length ds \<ge> 2" and x: "ds ! 1 = CHR ''x'' \<or> ds ! 1 = CHR ''X''"
    by (simp_all add: has0xPrefix_def)
  then have "ds ! 1 \<in> set ds" by simp
  with assms have "fromHexChar (ds ! 1) \<noteq> None" by (simp add: list_all_iff)
  with x show False by (auto simp: fromHexChar_def)
qed

lemma FromHex_plain:
  assumes "list_all (\<lambda>c. fromHexChar c \<noteq> None) ds" and "even (length ds)"
  shows "FromHex ds = Hex2Bytes ds"
  using hexdigits_no_prefix [OF assms(1)] assms(2)
  by (simp add: FromHex_def Let_def)

lemma FromHex_prefixed:
  assumes "p = ''0x'' \<or> p = ''0X''" and "even (length ds)"
  shows "FromHex (p @ ds) = Hex2Bytes ds"
  using assms by (auto simp: FromHex_def has0xPrefix_def Let_def)

lemma hexDecode_length:
  "list_all (\<lambda>c. fromHexChar c \<noteq> None) ds \<Longrightarrow> length (hexDecode ds) = length ds div 2"
  by (induction ds rule: hexDecode.induct) (auto split: option.splits)

lemma hexdigit_lowercase: "n < 16 \<Longrightarrow> hexdigit n \<in> set ''0123456789abcdef''"
  unfolding hexdigit_def by (rule nth_mem) simp

lemma hexEncode_lowercase:
  "set (hexEncode bs) \<subseteq> set ''0123456789abcdef'' \<and> length (hexEncode bs) = 2 * length bs"
proof (induction bs)
  case Nil
  then show ?case by (simp add: hexEncode_def)
next
  case (Cons b bs)
  have "unat b < 256" using unsigned_less [of b, where ?'a = nat] by simp
  then have "unat b div 16 < 16" by simp
  then have 1: "hexdigit (unat b div 16) \<in> set ''0123456789abcdef''" by (rule hexdigit_lowercase)
  have 2: "hexdigit (unat b mod 16) \<in> set ''0123456789abcdef''" by (rule hexdigit_lowercase) simp
  from 1 2 Cons show ?case by (simp add: hexEncode_def hexByte_def)
qed

lemma tracer_flags: "fst (selectTracer c) = None \<longleftrightarrow> \<not> MachineFlag c \<and> \<not> DebugFlag c"
  by (simp add: selectTracer_def Let_def)

subsection \<open>Where the code comes from\<close>

text \<open>C1, as amended. The code is taken from the first source that applies, in this order:
  the code-file flag when it is not empty (standard input when its value is \<^verbatim>\<open>-\<close>, the
  named file otherwise); the inline code flag when it is not empty; the positional assembly
  source, compiled, when there is one; otherwise there is no code. So the code-file flag
  comes before the inline code flag, and the positional source is compiled only when
  neither flag is given.\<close>

theorem resolveCode_precedence:
  "resolveCode e c =
     (if CodeFileFlag c = ''-'' then
        (case ReadAllStdin e of
           Inl err \<Rightarrow> Inl (Exit (''Could not load code from stdin: '' @ err @ newline))
         | Inr hexcode \<Rightarrow> checkHexcode hexcode)
      else if CodeFileFlag c \<noteq> [] then
        (case ReadFile e (CodeFileFlag c) of
           Inl err \<Rightarrow> Inl (Exit (''Could not load code from file: '' @ err @ newline))
         | Inr hexcode \<Rightarrow> checkHexcode hexcode)
      else if CodeFlag c \<noteq> [] then checkHexcode (CodeFlag c)
      else if ArgsFirst c \<noteq> [] then
        (case ReadFile e (ArgsFirst c) of
           Inl err \<Rightarrow> Inl (Return err)
         | Inr src \<Rightarrow>
            (case Compile e (ArgsFirst c) src of
               Inl err \<Rightarrow> Inl (Return err)
             | Inr bin \<Rightarrow> Inr (Hex2Bytes bin)))
      else Inr [])"
  by (auto simp: resolveCode_def readHexcode_def Let_def split: sum.splits)

text \<open>The four sources in the concrete environment: standard input holds \<^verbatim>\<open>0x6002\<close>, the
  code file \<^verbatim>\<open>6001\<close>, the inline flag \<^verbatim>\<open>6000\<close>, and the compiler returns \<^verbatim>\<open>6003\<close>.\<close>

theorem resolveCode_precedence_witness:
  "resolveCode testEnv (noFlags\<lparr>CodeFileFlag := ''-'', CodeFlag := ''6000'',
       ArgsFirst := ''prog.easm''\<rparr>) = Inr [0x60, 0x02]
 \<and> resolveCode testEnv (noFlags\<lparr>CodeFileFlag := ''code.hex'', CodeFlag := ''6000'',
       ArgsFirst := ''prog.easm''\<rparr>) = Inr [0x60, 0x01]
 \<and> resolveCode testEnv (noFlags\<lparr>CodeFlag := ''6000'', ArgsFirst := ''prog.easm''\<rparr>)
       = Inr [0x60, 0x00]
 \<and> resolveCode testEnv (noFlags\<lparr>ArgsFirst := ''prog.easm''\<rparr>) = Inr [0x60, 0x03]
 \<and> resolveCode testEnv noFlags = Inr []"
  by (simp add: resolveCode_precedence checkHexcode_def text_defs test_defs)

text \<open>C1 as stated (the inline code flag before the code-file flag) does not hold: given
  the code file holding \<^verbatim>\<open>6001\<close> and the inline code \<^verbatim>\<open>6000\<close>, the resolved code is that
  of the file.\<close>

theorem inline_code_first_counterexample:
  "CodeFlag fileAndInline = ''6000''
 \<and> checkHexcode ''6000'' = Inr [0x60, 0x00]
 \<and> resolveCode testEnv fileAndInline = Inr [0x60, 0x01]"
  by (simp add: fileAndInline_def resolveCode_def readHexcode_def checkHexcode_def
      text_defs test_defs)

subsection \<open>Create mode and call mode\<close>

text \<open>C2. In create mode the unit of work handed to \<open>timedExec\<close> calls the engine's
  create entry point with the resolved code followed by the resolved input, and with
  nothing else.\<close>

theorem create_input:
  assumes "CreateFlag c" and "prepare e c = Inr p"
  shows "\<exists>code input.
           resolveCode e c = Inr code \<and> resolveInput e c = Inr input
         \<and> execute e c p ws =
             timedExec (Benchmark e) (BenchFlag c)
               (\<lambda>w. case runtime_Create e (code @ input) (pConfig p) w of
                       ((output, _, gasLeft, err), w') \<Rightarrow> ((output, gasLeft, err), w'))
               (ws\<lparr>statedb := pStatedb p\<rparr>)"
proof -
  have "execute e c p ws =
          timedExec (Benchmark e) (BenchFlag c)
            (\<lambda>w. case runtime_Create e (pCode p @ pInput p) (pConfig p) w of
                    ((output, _, gasLeft, err), w') \<Rightarrow> ((output, gasLeft, err), w'))
            (ws\<lparr>statedb := pStatedb p\<rparr>)"
    using assms(1) by (simp only: execute_def dispatch_def if_True Let_def prod.case)
  with prepare_fields(1,2) [OF assms(2)] show ?thesis by blast
qed

text \<open>With code \<^verbatim>\<open>6001\<close> and input \<^verbatim>\<open>0xff\<close> the engine that returns what it was given
  returns the bytes 60 01 ff.\<close>

theorem create_input_witness:
  "CreateFlag (noFlags\<lparr>CodeFlag := ''6001'', InputFlag := ''0xff'', CreateFlag := True\<rparr>)
 \<and> prepare testEnv (noFlags\<lparr>CodeFlag := ''6001'', InputFlag := ''0xff'', CreateFlag := True\<rparr>)
     = Inr (basePrepared\<lparr>pCode := [0x60, 0x01], pInput := [0xff]\<rparr>)
 \<and> fst (execute testEnv (noFlags\<lparr>CodeFlag := ''6001'', InputFlag := ''0xff'', CreateFlag := True\<rparr>)
       (basePrepared\<lparr>pCode := [0x60, 0x01], pInput := [0xff]\<rparr>) proc0)
     = ([0x60, 0x01, 0xff], 10000000000, \<lparr>time = 5, allocs = 2, bytesAllocated = 64\<rparr>, None)"
proof -
  let ?c = "noFlags\<lparr>CodeFlag := ''6001'', InputFlag := ''0xff'', CreateFlag := True\<rparr>"
  let ?p = "basePrepared\<lparr>pCode := [0x60, 0x01], pInput := [0xff]\<rparr>"
  have h1: "CreateFlag ?c" by simp
  have h2: "prepare testEnv ?c = Inr ?p" by (rule prepare_code_input)
  from create_input [OF h1 h2, where ws = proc0] obtain code input where
    rc: "resolveCode testEnv ?c = Inr code" and ri: "resolveInput testEnv ?c = Inr input"
    and ex: "execute testEnv ?c ?p proc0 =
      timedExec (Benchmark testEnv) (BenchFlag ?c)
        (\<lambda>w. case runtime_Create testEnv (code @ input) (pConfig ?p) w of
                ((output, _, gasLeft, err), w') \<Rightarrow> ((output, gasLeft, err), w'))
        (proc0\<lparr>statedb := pStatedb ?p\<rparr>)"
    by blast
  have code: "code = [0x60, 0x01]"
    using rc by (simp add: resolveCode_def readHexcode_def checkHexcode_def text_defs test_defs)
  have input: "input = [0xff]"
    using ri by (simp add: resolveInput_def readHexInput_def checkHexInput_def text_defs test_defs)
  have "fst (execute testEnv ?c ?p proc0)
     = ([0x60, 0x01, 0xff], 10000000000, \<lparr>time = 5, allocs = 2, bytesAllocated = 64\<rparr>, None)"
    unfolding ex code input
    by (simp add: timedExec_def test_defs basePrepared_def)
  with h1 h2 show ?thesis by blast
qed



text \<open>C3 as stated (with empty resolved code the state store is not written before the
  invocation) does not hold: with no flag set the resolved code is empty and the opened
  store has no account of the sender, yet the store the unit of work is invoked on, and
  leaves as it is in this environment, has one.\<close>

theorem store_written_counterexample:
  "\<not> CreateFlag noFlags
 \<and> resolveCode testEnv noFlags = Inr []
 \<and> fst (projr (initState testEnv noFlags)) (senderOf noFlags) = None
 \<and> prepare testEnv noFlags = Inr basePrepared
 \<and> pStatedb basePrepared (senderOf noFlags) = Some \<lparr>acctBalance = 0, acctCode = []\<rparr>
 \<and> statedb (snd (execute testEnv noFlags basePrepared proc0)) (senderOf noFlags)
     = Some \<lparr>acctBalance = 0, acctCode = []\<rparr>"
proof -
  have a: "\<not> CreateFlag noFlags" by (simp add: noFlags_def)
  have b: "resolveCode testEnv noFlags = Inr []" by (simp add: resolveCode_def test_defs)
  have c: "fst (projr (initState testEnv noFlags)) (senderOf noFlags) = None"
    by (simp add: initState_noFlags)
  have s: "SenderFlag noFlags = []" by (simp add: noFlags_def)
  have d: "pStatedb basePrepared (senderOf noFlags) = Some \<lparr>acctBalance = 0, acctCode = []\<rparr>"
    by (simp add: basePrepared_def senderOf_def s)
  have e: "statedb (snd (execute testEnv noFlags basePrepared proc0)) = pStatedb basePrepared"
    using a by (simp add: execute_def dispatch_def timedExec_def test_defs basePrepared_def
        split: prod.splits)
  from a b c prepare_noFlags d e show ?thesis by simp
qed

subsection \<open>The gas\<close>

text \<open>C4. The gas limit of the configuration is the gas limit of the genesis when that is
  not zero, whatever the gas flag says, and the value of the gas flag when it is zero; with
  no genesis file it is the value of the gas flag.\<close>

theorem initial_gas:
  assumes "prepare e c = Inr p" and "initState e c = Inr (db, cc, g)"
  shows "runtime_Config.GasLimit (pConfig p) =
           (if Genesis.GasLimit g \<noteq> 0 then Genesis.GasLimit g else GasFlag c)
       \<and> (GenesisFlag c = [] \<longrightarrow> runtime_Config.GasLimit (pConfig p) = GasFlag c)"
  using assms prepare_fields(6) [OF assms(1)]
  by (auto simp: runtimeConfig_def initialGas_def initState_def newGenesis_def)

text \<open>A genesis file with gas limit 5000 against the default gas flag, and no genesis
  file.\<close>

theorem initial_gas_witness:
  "prepare testEnv (noFlags\<lparr>GenesisFlag := ''genesis.json''\<rparr>)
     = Inr (basePrepared\<lparr>pConfig := (pConfig basePrepared)\<lparr>GasLimit := 5000\<rparr>\<rparr>)
 \<and> initState testEnv (noFlags\<lparr>GenesisFlag := ''genesis.json''\<rparr>)
     = Inr (Map.empty, None, testGenesis)
 \<and> runtime_Config.GasLimit
       (pConfig (basePrepared\<lparr>pConfig := (pConfig basePrepared)\<lparr>GasLimit := 5000\<rparr>\<rparr>)) = 5000
 \<and> GasFlag (noFlags\<lparr>GenesisFlag := ''genesis.json''\<rparr>) = 10000000000
 \<and> prepare testEnv noFlags = Inr basePrepared
 \<and> initState testEnv noFlags = Inr (Map.empty, None, newGenesis)
 \<and> GenesisFlag noFlags = []
 \<and> runtime_Config.GasLimit (pConfig basePrepared) = 10000000000"
proof -
  let ?c = "noFlags\<lparr>GenesisFlag := ''genesis.json''\<rparr>"
  let ?p = "basePrepared\<lparr>pConfig := (pConfig basePrepared)\<lparr>GasLimit := 5000\<rparr>\<rparr>"
  have h1: "prepare testEnv ?c = Inr ?p"
    by (simp add: prepare_defs text_defs test_defs basePrepared_def)
  have h2: "initState testEnv ?c = Inr (Map.empty, None, testGenesis)"
    by (simp add: initState_def readGenesis_def test_defs newGenesis_def)
  have g: "Genesis.GasLimit testGenesis = 5000"
    by (simp add: testGenesis_def newGenesis_def)
  have a: "runtime_Config.GasLimit (pConfig ?p) = 5000"
    using initial_gas [OF h1 h2] g by simp
  have g0: "Genesis.GasLimit newGenesis = 0" by (simp add: newGenesis_def)
  have f: "GenesisFlag noFlags = []" "GasFlag noFlags = 10000000000"
     "GasFlag ?c = 10000000000"
    by (simp_all add: noFlags_def)
  have b: "runtime_Config.GasLimit (pConfig basePrepared) = 10000000000"
    using initial_gas [OF prepare_noFlags initState_noFlags] f g0 by simp
  from h1 h2 a b f prepare_noFlags initState_noFlags show ?thesis by blast
qed

subsection \<open>Hex text of odd length\<close>

text \<open>C5. When the text read for the code (from the code-file flag or the inline flag) has
  odd length after trimming, resolving the code fails with the message
  \<^verbatim>\<open>Invalid input length for hex data (n)\<close> and \<^verbatim>\<open>os.Exit(1)\<close>, and the run ends with it
  unless the genesis could not be read before. When the text read for the input has odd
  length after trimming, resolving the input fails with \<^verbatim>\<open>input length must be even\<close> and
  the run ends with it unless an earlier step failed. In both cases the run ends in an
  abort that is the same for every engine \<open>f\<close>, \<open>g\<close>: the unit of work is not invoked,
  and no bytes are decoded from the text.\<close>

theorem odd_length_aborts:
  "(CodeFileFlag c \<noteq> [] \<or> CodeFlag c \<noteq> [] \<longrightarrow> readHexcode e c = Inr h \<longrightarrow>
      odd (length (TrimSpace h)) \<longrightarrow>
        resolveCode e c = Inl (Exit (''Invalid input length for hex data (''
            @ showNat (length (TrimSpace h)) @ '')'' @ newline))
      \<and> runCmd (e\<lparr>runtime_Create := f, runtime_Call := g\<rparr>) c ws =
          (case initState e c of
             Inl b \<Rightarrow> Inl b
           | Inr s \<Rightarrow> Inl (Exit (''Invalid input length for hex data (''
                @ showNat (length (TrimSpace h)) @ '')'' @ newline))))
   \<and> (readHexInput e c = Inr h \<longrightarrow> odd (length (TrimSpace h)) \<longrightarrow>
        resolveInput e c = Inl (Exit (''input length must be even'' @ newline))
      \<and> runCmd (e\<lparr>runtime_Create := f, runtime_Call := g\<rparr>) c ws =
          (case initState e c of
             Inl b \<Rightarrow> Inl b
           | Inr s \<Rightarrow>
              (case resolveCode e c of
                 Inl b \<Rightarrow> Inl b
               | Inr code \<Rightarrow>
                  (case startCPUProfile e c of
                     Inl b \<Rightarrow> Inl b
                   | Inr u \<Rightarrow> Inl (Exit (''input length must be even'' @ newline))))))"
proof (intro conjI impI)
  assume a: "CodeFileFlag c \<noteq> [] \<or> CodeFlag c \<noteq> []" "readHexcode e c = Inr h"
    "odd (length (TrimSpace h))"
  let ?a = "Exit (''Invalid input length for hex data (''
            @ showNat (length (TrimSpace h)) @ '')'' @ newline)"
  show rc: "resolveCode e c = Inl ?a" using a by (rule resolveCode_odd)
  have p: "prepare e c = (case initState e c of Inl b \<Rightarrow> Inl b | Inr s \<Rightarrow> Inl ?a)"
    using rc by (rule prepare_code_abort)
  show "runCmd (e\<lparr>runtime_Create := f, runtime_Call := g\<rparr>) c ws =
          (case initState e c of Inl b \<Rightarrow> Inl b | Inr s \<Rightarrow> Inl ?a)"
    by (cases "initState e c") (simp_all add: p runCmd_abort)
next
  assume a: "readHexInput e c = Inr h" "odd (length (TrimSpace h))"
  let ?a = "Exit (''input length must be even'' @ newline)"
  show ri: "resolveInput e c = Inl ?a" using a by (rule resolveInput_odd)
  note p = prepare_input_abort [OF ri]
  show "runCmd (e\<lparr>runtime_Create := f, runtime_Call := g\<rparr>) c ws =
          (case initState e c of
             Inl b \<Rightarrow> Inl b
           | Inr s \<Rightarrow>
              (case resolveCode e c of
                 Inl b \<Rightarrow> Inl b
               | Inr code \<Rightarrow>
                  (case startCPUProfile e c of Inl b \<Rightarrow> Inl b | Inr u \<Rightarrow> Inl ?a)))"
    by (cases "initState e c"; cases "resolveCode e c"; cases "startCPUProfile e c")
       (simp_all add: p runCmd_abort)
qed

text \<open>Inline code \<^verbatim>\<open>600\<close> followed by the ideographic space U+3000, which is trimmed
  away and leaves three digits; and input \<^verbatim>\<open>0xf\<close>.\<close>

theorem odd_length_aborts_witness:
  "readHexcode testEnv (noFlags\<lparr>CodeFlag := [CHR ''6'', CHR ''0'', CHR ''0'', CHR 0xE3, CHR 0x80, CHR 0x80]\<rparr>)
     = Inr ([CHR ''6'', CHR ''0'', CHR ''0'', CHR 0xE3, CHR 0x80, CHR 0x80])
 \<and> TrimSpace ([CHR ''6'', CHR ''0'', CHR ''0'', CHR 0xE3, CHR 0x80, CHR 0x80]) = ''600''
 \<and> odd (length (TrimSpace ([CHR ''6'', CHR ''0'', CHR ''0'', CHR 0xE3, CHR 0x80, CHR 0x80])))
 \<and> resolveCode testEnv (noFlags\<lparr>CodeFlag := [CHR ''6'', CHR ''0'', CHR ''0'', CHR 0xE3, CHR 0x80, CHR 0x80]\<rparr>)
     = Inl (Exit (''Invalid input length for hex data (3)'' @ newline))
 \<and> runCmd testEnv (noFlags\<lparr>CodeFlag := [CHR ''6'', CHR ''0'', CHR ''0'', CHR 0xE3, CHR 0x80, CHR 0x80]\<rparr>) proc0
     = Inl (Exit (''Invalid input length for hex data (3)'' @ newline))
 \<and> readHexInput testEnv (noFlags\<lparr>CodeFlag := ''6001'', InputFlag := ''0xf''\<rparr>) = Inr ''0xf''
 \<and> odd (length (TrimSpace ''0xf''))
 \<and> resolveInput testEnv (noFlags\<lparr>CodeFlag := ''6001'', InputFlag := ''0xf''\<rparr>)
     = Inl (Exit (''input length must be even'' @ newline))
 \<and> runCmd testEnv (noFlags\<lparr>CodeFlag := ''6001'', InputFlag := ''0xf''\<rparr>) proc0
     = Inl (Exit (''input length must be even'' @ newline))"
proof -
  let ?h = "[CHR ''6'', CHR ''0'', CHR ''0'', CHR 0xE3, CHR 0x80, CHR 0x80]"
  let ?c = "noFlags\<lparr>CodeFlag := ?h\<rparr>"
  let ?d = "noFlags\<lparr>CodeFlag := ''6001'', InputFlag := ''0xf''\<rparr>"
  have e: "testEnv\<lparr>runtime_Create := runtime_Create testEnv,
             runtime_Call := runtime_Call testEnv\<rparr> = testEnv"
    by simp
  have c1: "CodeFileFlag ?c \<noteq> [] \<or> CodeFlag ?c \<noteq> []" by simp
  have c2: "readHexcode testEnv ?c = Inr ?h"
    by (simp add: readHexcode_def noFlags_def)
  have c3: "odd (length (TrimSpace ?h))" unfolding TrimSpace_ideographic by simp
  have ic: "initState testEnv ?c = Inr (Map.empty, None, newGenesis)"
    by (simp add: initState_def noFlags_def)
  have d2: "readHexInput testEnv ?d = Inr ''0xf''"
    by (simp add: readHexInput_def noFlags_def)
  have d3: "odd (length (TrimSpace ''0xf''))" by (simp add: text_defs)
  have dI: "initState testEnv ?d = Inr (Map.empty, None, newGenesis)"
    by (simp add: initState_def noFlags_def)
  have dC: "resolveCode testEnv ?d = Inr [0x60, 0x01]"
    by (simp add: resolveCode_def readHexcode_def checkHexcode_def text_defs test_defs)
  have dP: "startCPUProfile testEnv ?d = Inr ()"
    by (simp add: startCPUProfile_def noFlags_def)
  note t1 = odd_length_aborts [where c = ?c and e = testEnv and h = ?h
      and f = "runtime_Create testEnv" and g = "runtime_Call testEnv" and ws = proc0,
      unfolded e, THEN conjunct1, rule_format, OF c1 c2 c3, unfolded TrimSpace_ideographic]
  note t2 = odd_length_aborts [where c = ?d and e = testEnv and h = "''0xf''"
      and f = "runtime_Create testEnv" and g = "runtime_Call testEnv" and ws = proc0,
      unfolded e, THEN conjunct2, rule_format, OF d2 d3]
  have a: "resolveCode testEnv ?c = Inl (Exit (''Invalid input length for hex data (3)'' @ newline))"
    using t1 by (simp add: showNat.simps digit_def)
  have b: "runCmd testEnv ?c proc0 = Inl (Exit (''Invalid input length for hex data (3)'' @ newline))"
    using t1 by (simp add: ic showNat.simps digit_def)
  have c: "resolveInput testEnv ?d = Inl (Exit (''input length must be even'' @ newline))"
    using t2 by simp
  have d: "runCmd testEnv ?d proc0 = Inl (Exit (''input length must be even'' @ newline))"
    using t2 by (simp add: dI dC dP)
  from c2 TrimSpace_ideographic c3 a b d2 d3 c d show ?thesis by blast
qed

subsection \<open>timedExec\<close>

text \<open>C6. Outside benchmark mode the unit of work is invoked once, on the world
  \<open>timedExec\<close> was given; its result is returned, with the differences of the clock and
  of the allocation counters between the world after it and the world before it. In
  benchmark mode the unit of work is invoked as many times as the values of \<^verbatim>\<open>b.N\<close> add up
  to, each time on the world the invocation before it left; the output, gas left and error
  returned are those of the last invocation (and \<^verbatim>\<open>nil, 0, nil\<close> if there was none), with
  the statistics of the benchmark result.\<close>

theorem timedExec_invocations:
  "timedExec tb False f w =
     (case f w of
        ((output, gasLeft, err), w') \<Rightarrow>
          ((output, gasLeft,
            \<lparr>time = now w' - now w, allocs = sint (Mallocs w' - Mallocs w),
             bytesAllocated = sint (TotalAlloc w' - TotalAlloc w)\<rparr>, err), w'))
   \<and> timedExec tb True f w =
     (let n = sum_list (BN tb);
          stats = \<lparr>time = NsPerOp tb, allocs = AllocsPerOp tb,
                   bytesAllocated = AllocedBytesPerOp tb\<rparr>
      in if n = 0 then (([], 0, stats, None), w)
         else (case f (((\<lambda>w. snd (f w)) ^^ (n - 1)) w) of
                 ((output, gasLeft, err), w') \<Rightarrow> ((output, gasLeft, stats, err), w')))"
proof (intro conjI)
  show "timedExec tb False f w =
     (case f w of
        ((output, gasLeft, err), w') \<Rightarrow>
          ((output, gasLeft,
            \<lparr>time = now w' - now w, allocs = sint (Mallocs w' - Mallocs w),
             bytesAllocated = sint (TotalAlloc w' - TotalAlloc w)\<rparr>, err), w'))"
    by (simp add: timedExec_def Let_def split: prod.splits)
next
  show "timedExec tb True f w =
     (let n = sum_list (BN tb);
          stats = \<lparr>time = NsPerOp tb, allocs = AllocsPerOp tb,
                   bytesAllocated = AllocedBytesPerOp tb\<rparr>
      in if n = 0 then (([], 0, stats, None), w)
         else (case f (((\<lambda>w. snd (f w)) ^^ (n - 1)) w) of
                 ((output, gasLeft, err), w') \<Rightarrow> ((output, gasLeft, stats, err), w')))"
  proof (cases "sum_list (BN tb) = 0")
    case True
    show ?thesis unfolding timedExec_def testing_Benchmark_flat True by simp
  next
    case False
    then have "0 < sum_list (BN tb)" by arith
    from benchLoop_last [OF this, of f "(([], 0, None), w)"] False
    show ?thesis by (auto simp: timedExec_def testing_Benchmark_flat Let_def)
  qed
qed

text \<open>A unit of work that returns the allocation counter it sees and then allocates: once
  outside benchmark mode; four times (\<^verbatim>\<open>b.N\<close> = 1, then 3) in benchmark mode, the result
  being that of the fourth.\<close>

theorem timedExec_invocations_witness:
  "timedExec (Benchmark testEnv) False (\<lambda>w. (([], Mallocs w, None), tick w)) proc0
     = (([], 100, \<lparr>time = 5, allocs = 2, bytesAllocated = 64\<rparr>, None), tick proc0)
 \<and> timedExec (Benchmark testEnv) True (\<lambda>w. (([], Mallocs w, None), tick w)) proc0
     = (([], 106, \<lparr>time = 5, allocs = 2, bytesAllocated = 64\<rparr>, None),
        tick (tick (tick (tick proc0))))"
  using timedExec_invocations [of "Benchmark testEnv" "\<lambda>w. (([], Mallocs w, None), tick w)" proc0]
  by (simp add: test_defs numeral_3_eq_3)

subsection \<open>The result line\<close>

text \<open>C7, as amended. After the state dump (if the dump flag is set), standard output
  receives, when neither the machine flag nor the debug flag is set: for output bytes that
  are not empty \<^verbatim>\<open>0x\<close> followed by their lowercase hex encoding and a newline, for empty
  output bytes only the newline; then, if the execution returned an error, a line made of
  \<^verbatim>\<open> error: \<close> and the error message. When either flag is set none of this is written.\<close>

theorem result_line:
  assumes "prepare e c = Inr p" and "report e c p ((output, leftOverGas, stats, err), w) = Inr r"
  shows "Stdout r = fst (dumpText e c w) @
           (if \<not> MachineFlag c \<and> \<not> DebugFlag c then
              (if output = [] then [] else ''0x'' @ hexEncode output) @ newline
              @ (case err of None \<Rightarrow> [] | Some msg \<Rightarrow> '' error: '' @ msg @ newline)
            else [])"
  using assms(2) prepare_fields(3) [OF assms(1)] tracer_flags [of c]
  by (auto simp: report_def resultText_def fmtSharpX_def split: prod.splits option.splits)

text \<open>The output 60 01 ff with the error \<^verbatim>\<open>out of gas\<close>.\<close>

theorem result_line_witness:
  "prepare testEnv (noFlags\<lparr>CodeFlag := ''6001'', InputFlag := ''0xff'', CreateFlag := False\<rparr>)
     = Inr (basePrepared\<lparr>pCode := [0x60, 0x01], pInput := [0xff]\<rparr>)
 \<and> report testEnv (noFlags\<lparr>CodeFlag := ''6001'', InputFlag := ''0xff'', CreateFlag := False\<rparr>)
       (basePrepared\<lparr>pCode := [0x60, 0x01], pInput := [0xff]\<rparr>)
       (([0x60, 0x01, 0xff], 7, \<lparr>time = 5, allocs = 2, bytesAllocated = 64\<rparr>,
         Some ''out of gas''), proc0)
     = Inr \<lparr>Stdout = ''0x6001ff'' @ newline @ '' error: out of gas'' @ newline, Stderr = [],
            World = proc0\<rparr>
 \<and> Stdout \<lparr>Stdout = ''0x6001ff'' @ newline @ '' error: out of gas'' @ newline, Stderr = [],
            World = proc0\<rparr>
     = ''0x6001ff'' @ newline @ '' error: out of gas'' @ newline"
proof -
  let ?c = "noFlags\<lparr>CodeFlag := ''6001'', InputFlag := ''0xff'', CreateFlag := False\<rparr>"
  let ?p = "basePrepared\<lparr>pCode := [0x60, 0x01], pInput := [0xff]\<rparr>"
  let ?r = "\<lparr>Stdout = ''0x6001ff'' @ newline @ '' error: out of gas'' @ newline, Stderr = [],
            World = proc0\<rparr>"
  have h1: "prepare testEnv ?c = Inr ?p" by (rule prepare_code_input)
  have h2: "report testEnv ?c ?p (([0x60, 0x01, 0xff], 7,
              \<lparr>time = 5, allocs = 2, bytesAllocated = 64\<rparr>, Some ''out of gas''), proc0) = Inr ?r"
    by (simp add: report_def dumpText_def writeMemProfile_def debugText_def statsText_def
        resultText_def text_defs test_defs basePrepared_def)
  have "Stdout ?r = ''0x6001ff'' @ newline @ '' error: out of gas'' @ newline"
    using result_line [OF h1 h2]
    by (simp add: dumpText_def hexEncode_def hexByte_def hexdigit_def noFlags_def)
  with h1 h2 show ?thesis by blast
qed

text \<open>C7 as stated (always \<^verbatim>\<open>0x\<close> first) does not hold: for empty output bytes
  \<^verbatim>\<open>%#x\<close> writes nothing, and the line is only the newline. This is what a run with no flag
  set writes: no code at the receiver, so the engine returns no bytes.\<close>

theorem empty_output_counterexample:
  "fst (selectTracer noFlags) = None
 \<and> resultText None [] None = newline
 \<and> map_sum id Stdout (runCmd testEnv noFlags proc0) = Inr newline
 \<and> newline \<noteq> ''0x'' @ hexEncode [] @ newline"
  by (simp add: prepare_defs text_defs test_defs run_defs)

subsection \<open>The tracer\<close>

text \<open>C8. The tracer of the engine's configuration is the one chosen before the execution:
  with the machine flag the JSON logger; otherwise with the debug flag a struct logger,
  which is also the debug logger; otherwise none, while a struct logger is still built as
  the debug logger.\<close>

theorem tracer_selection:
  assumes "prepare e c = Inr p"
  shows "Tracer (EVMConfig (pConfig p)) = pTracer p
       \<and> (MachineFlag c \<longrightarrow> pTracer p = Some (JSONLogger (logconfig c)))
       \<and> (\<not> MachineFlag c \<and> DebugFlag c \<longrightarrow>
            pTracer p = Some (StructTracer (NewStructLogger (logconfig c)))
          \<and> pDebugLogger p = Some (NewStructLogger (logconfig c)))
       \<and> (\<not> MachineFlag c \<and> \<not> DebugFlag c \<longrightarrow>
            pTracer p = None \<and> pDebugLogger p = Some (NewStructLogger (logconfig c)))"
  using prepare_fields(3,4,6) [OF assms]
  by (auto simp: selectTracer_def runtimeConfig_def Let_def)

text \<open>The machine flag, and no flag.\<close>

theorem tracer_selection_witness:
  "prepare testEnv (noFlags\<lparr>MachineFlag := True\<rparr>)
     = Inr (basePrepared\<lparr>pTracer := Some (JSONLogger (logconfig noFlags)), pDebugLogger := None,
              pConfig := (pConfig basePrepared)\<lparr>EVMConfig :=
                 \<lparr>Tracer = Some (JSONLogger (logconfig noFlags)), Debug = True\<rparr>\<rparr>\<rparr>)
 \<and> prepare testEnv noFlags = Inr basePrepared
 \<and> pTracer basePrepared = None
 \<and> Tracer (EVMConfig (pConfig basePrepared)) = None
 \<and> pDebugLogger basePrepared = Some (NewStructLogger (logconfig noFlags))"
proof -
  let ?c = "noFlags\<lparr>MachineFlag := True\<rparr>"
  let ?p = "basePrepared\<lparr>pTracer := Some (JSONLogger (logconfig noFlags)), pDebugLogger := None,
              pConfig := (pConfig basePrepared)\<lparr>EVMConfig :=
                 \<lparr>Tracer = Some (JSONLogger (logconfig noFlags)), Debug = True\<rparr>\<rparr>\<rparr>"
  have h1: "prepare testEnv ?c = Inr ?p"
    by (simp add: prepare_defs text_defs test_defs basePrepared_def)
  have f: "\<not> MachineFlag noFlags \<and> \<not> DebugFlag noFlags" by (simp add: noFlags_def)
  from tracer_selection [OF h1] have "Tracer (EVMConfig (pConfig ?p)) = pTracer ?p" by blast
  from tracer_selection [OF prepare_noFlags] f
  have "Tracer (EVMConfig (pConfig basePrepared)) = pTracer basePrepared"
    and "pTracer basePrepared = None"
    and "pDebugLogger basePrepared = Some (NewStructLogger (logconfig noFlags))"
    by blast+
  with h1 prepare_noFlags show ?thesis by simp
qed

subsection \<open>Sender and receiver\<close>

text \<open>C9. Without the sender flag the sender is the 20 bytes
  \<^verbatim>\<open>000000000000000000000000000073656e646572\<close>, the ASCII bytes of \<^verbatim>\<open>sender\<close> at the right
  end; without the receiver flag the receiver is likewise made from \<^verbatim>\<open>receiver\<close>; a flag
  that is given replaces the default by the address it spells. The sender is the origin of
  the configuration.\<close>

theorem default_addresses:
  "(SenderFlag c = [] \<longrightarrow>
      senderOf c = [0, 0, 0, 0, 0, 0, 0, 0, 0, 0, 0, 0, 0, 0, 0x73, 0x65, 0x6e, 0x64, 0x65, 0x72]
    \<and> hexEncode (senderOf c) = ''000000000000000000000000000073656e646572'')
 \<and> (SenderFlag c \<noteq> [] \<longrightarrow> senderOf c = HexToAddress (SenderFlag c))
 \<and> (ReceiverFlag c = [] \<longrightarrow>
      receiverOf c = [0, 0, 0, 0, 0, 0, 0, 0, 0, 0, 0, 0, 0x72, 0x65, 0x63, 0x65, 0x69, 0x76, 0x65, 0x72]
    \<and> hexEncode (receiverOf c) = ''0000000000000000000000007265636569766572'')
 \<and> (ReceiverFlag c \<noteq> [] \<longrightarrow> receiverOf c = HexToAddress (ReceiverFlag c))
 \<and> (\<forall>e p. prepare e c = Inr p \<longrightarrow>
        Origin (pConfig p) = senderOf c \<and> pReceiver p = receiverOf c)"
proof (intro conjI impI allI)
  assume "SenderFlag c = []"
  then show s: "senderOf c = [0, 0, 0, 0, 0, 0, 0, 0, 0, 0, 0, 0, 0, 0, 0x73, 0x65, 0x6e, 0x64, 0x65, 0x72]"
    by (simp add: senderOf_def BytesToAddress_def bytesOf_def eval_nat_numeral)
  show "hexEncode (senderOf c) = ''000000000000000000000000000073656e646572''"
    unfolding s by (simp add: hexEncode_def hexByte_def hexdigit_def)
next
  assume "ReceiverFlag c = []"
  then show r: "receiverOf c = [0, 0, 0, 0, 0, 0, 0, 0, 0, 0, 0, 0, 0x72, 0x65, 0x63, 0x65, 0x69, 0x76, 0x65, 0x72]"
    by (simp add: receiverOf_def BytesToAddress_def bytesOf_def eval_nat_numeral)
  show "hexEncode (receiverOf c) = ''0000000000000000000000007265636569766572''"
    unfolding r by (simp add: hexEncode_def hexByte_def hexdigit_def)
next
  assume "SenderFlag c \<noteq> []"
  then show "senderOf c = HexToAddress (SenderFlag c)" by (simp add: senderOf_def)
next
  assume "ReceiverFlag c \<noteq> []"
  then show "receiverOf c = HexToAddress (ReceiverFlag c)" by (simp add: receiverOf_def)
next
  fix e p assume p: "prepare e c = Inr p"
  from prepare_fields(6) [OF p] show "Origin (pConfig p) = senderOf c"
    by (auto simp: runtimeConfig_def)
  from prepare_fields(5) [OF p] show "pReceiver p = receiverOf c" .
qed

text \<open>No flag, and each flag given.\<close>

theorem default_addresses_witness:
  "SenderFlag noFlags = [] \<and> ReceiverFlag noFlags = []
 \<and> hexEncode (senderOf noFlags) = ''000000000000000000000000000073656e646572''
 \<and> hexEncode (receiverOf noFlags) = ''0000000000000000000000007265636569766572''
 \<and> senderOf (noFlags\<lparr>SenderFlag := ''0x0102''\<rparr>)
     = [0, 0, 0, 0, 0, 0, 0, 0, 0, 0, 0, 0, 0, 0, 0, 0, 0, 0, 1, 2]
 \<and> receiverOf (noFlags\<lparr>ReceiverFlag := ''ff''\<rparr>)
     = [0, 0, 0, 0, 0, 0, 0, 0, 0, 0, 0, 0, 0, 0, 0, 0, 0, 0, 0, 0xff]
 \<and> prepare testEnv noFlags = Inr basePrepared
 \<and> Origin (pConfig basePrepared) = senderOf noFlags
 \<and> pReceiver basePrepared = receiverOf noFlags"
proof -
  have f: "SenderFlag noFlags = []" "ReceiverFlag noFlags = []" by (simp_all add: noFlags_def)
  note t = default_addresses [of noFlags]
  have a: "hexEncode (senderOf noFlags) = ''000000000000000000000000000073656e646572''"
    and b: "hexEncode (receiverOf noFlags) = ''0000000000000000000000007265636569766572''"
    using t f by blast+
  have c: "Origin (pConfig basePrepared) = senderOf noFlags
         \<and> pReceiver basePrepared = receiverOf noFlags"
    using t prepare_noFlags by blast
  have "senderOf (noFlags\<lparr>SenderFlag := ''0x0102''\<rparr>) = HexToAddress ''0x0102''"
    using default_addresses [of "noFlags\<lparr>SenderFlag := ''0x0102''\<rparr>"] by simp
  moreover have "FromHex ''0x0102'' = [1, 2]" by (simp add: text_defs)
  moreover have "BytesToAddress [1, 2] = [0, 0, 0, 0, 0, 0, 0, 0, 0, 0, 0, 0, 0, 0, 0, 0, 0, 0, 1, 2]"
    by (simp add: BytesToAddress_def eval_nat_numeral)
  ultimately have d: "senderOf (noFlags\<lparr>SenderFlag := ''0x0102''\<rparr>)
     = [0, 0, 0, 0, 0, 0, 0, 0, 0, 0, 0, 0, 0, 0, 0, 0, 0, 0, 1, 2]"
    by (simp add: HexToAddress_def)
  have "receiverOf (noFlags\<lparr>ReceiverFlag := ''ff''\<rparr>) = HexToAddress ''ff''"
    using default_addresses [of "noFlags\<lparr>ReceiverFlag := ''ff''\<rparr>"] by simp
  moreover have "FromHex ''ff'' = [0xff]" by (simp add: text_defs)
  moreover have "BytesToAddress [0xff] = [0, 0, 0, 0, 0, 0, 0, 0, 0, 0, 0, 0, 0, 0, 0, 0, 0, 0, 0, 0xff]"
    by (simp add: BytesToAddress_def eval_nat_numeral)
  ultimately have e: "receiverOf (noFlags\<lparr>ReceiverFlag := ''ff''\<rparr>)
     = [0, 0, 0, 0, 0, 0, 0, 0, 0, 0, 0, 0, 0, 0, 0, 0, 0, 0, 0, 0xff]"
    by (simp add: HexToAddress_def)
  from f a b c d e prepare_noFlags show ?thesis by blast
qed

subsection \<open>The 0x prefix\<close>

text \<open>C10. A code or input text that is, after trimming, \<^verbatim>\<open>0x\<close> or \<^verbatim>\<open>0X\<close> followed by an
  even number of hex digits is accepted and decodes to the same bytes as a text that is,
  after trimming, those digits alone: one byte for every two digits.\<close>

theorem prefix_stripped:
  assumes "p = ''0x'' \<or> p = ''0X''" and "TrimSpace h = p @ ds" and "TrimSpace h' = ds"
    and "even (length ds)" and "list_all (\<lambda>c. fromHexChar c \<noteq> None) ds"
  shows "checkHexcode h = Inr (Hex2Bytes ds) \<and> checkHexcode h' = Inr (Hex2Bytes ds)
       \<and> checkHexInput h = Inr (Hex2Bytes ds) \<and> checkHexInput h' = Inr (Hex2Bytes ds)
       \<and> length (Hex2Bytes ds) = length ds div 2"
proof -
  have lp: "even (length (p @ ds))" using assms(1,4) by auto
  have a: "FromHex (p @ ds) = Hex2Bytes ds" using assms(1,4) by (rule FromHex_prefixed)
  have b: "FromHex ds = Hex2Bytes ds" using assms(5,4) by (rule FromHex_plain)
  show ?thesis
    using lp a b assms(2,3,4) hexDecode_length [OF assms(5)]
    by (simp add: checkHexcode_def checkHexInput_def Let_def Hex2Bytes_def)
qed

text \<open>The text \<^verbatim>\<open>0X60af\<close> between a no-break space and an ideographic space with a
  newline, and \<^verbatim>\<open>60af\<close>.\<close>

theorem prefix_stripped_witness:
  "TrimSpace ([CHR 0xC2, CHR 0xA0, CHR ''0'', CHR ''X'', CHR ''6'', CHR ''0'', CHR ''a'', CHR ''f'',
      CHR 0xE3, CHR 0x80, CHR 0x80, CHR 0x0A])
     = ''0X'' @ ''60af''
 \<and> TrimSpace ''60af'' = ''60af''
 \<and> even (length ''60af'')
 \<and> list_all (\<lambda>c. fromHexChar c \<noteq> None) ''60af''
 \<and> checkHexcode ([CHR 0xC2, CHR 0xA0, CHR ''0'', CHR ''X'', CHR ''6'', CHR ''0'', CHR ''a'', CHR ''f'',
      CHR 0xE3, CHR 0x80, CHR 0x80, CHR 0x0A])
     = Inr [0x60, 0xaf]
 \<and> checkHexcode ''60af'' = Inr [0x60, 0xaf]
 \<and> checkHexInput ([CHR 0xC2, CHR 0xA0, CHR ''0'', CHR ''X'', CHR ''6'', CHR ''0'', CHR ''a'', CHR ''f'',
      CHR 0xE3, CHR 0x80, CHR 0x80, CHR 0x0A])
     = Inr [0x60, 0xaf]
 \<and> checkHexInput ''60af'' = Inr [0x60, 0xaf]"
proof -
  let ?h = "[CHR 0xC2, CHR 0xA0, CHR ''0'', CHR ''X'', CHR ''6'', CHR ''0'', CHR ''a'', CHR ''f'',
      CHR 0xE3, CHR 0x80, CHR 0x80, CHR 0x0A]"
  have h1: "''0X'' = ''0x'' \<or> ''0X'' = ''0X''" by simp
  have h2: "TrimSpace ?h = ''0X'' @ ''60af''" unfolding TrimSpace_no_break by simp
  have h3: "TrimSpace ''60af'' = ''60af''" by (simp add: text_defs)
  have h4: "even (length ''60af'')" by simp
  have h5: "list_all (\<lambda>c. fromHexChar c \<noteq> None) ''60af''" by (simp add: fromHexChar_def)
  have v: "Hex2Bytes ''60af'' = [0x60, 0xaf]" by (simp add: Hex2Bytes_def fromHexChar_def)
  note t = prefix_stripped [OF h1 h2 h3 h4 h5, unfolded v]
  from t h2 h3 h4 h5 show ?thesis by blast
qed

end
